theory Spec2Isabelle
  imports Complex_Main "HOL-Library.AList"
begin

section \<open>Ledger gateway, signer and transactions\<close>

text \<open>
  The example scripts under \<^verbatim>\<open>examples/python\<close> talk to a remote ledger through web3.py
  and sign with a local account. Everything outside a script is collected in one record
  \<open>env\<close>: the answers of the ledger (functions of the ledger state \<open>'c\<close>), the account
  derived from the private key, and the library functions the scripts call
  (\<^verbatim>\<open>Web3.to_checksum_address\<close>, \<^verbatim>\<open>Web3.from_wei\<close>, \<^verbatim>\<open>Web3.keccak\<close>).
  Python integers are unbounded, so amounts are \<open>int\<close>; \<^verbatim>\<open>bytes\<close> values are lists of
  8-bit characters. Every call that can raise returns \<open>error + 'a\<close>, \<open>Inl\<close> being the
  exception.
\<close>

type_synonym addr = string
type_synonym bytes = string
type_synonym hash = string
type_synonym log_entry = string

datatype error = Exception string

datatype 'r outcome = Returned 'r | Raised error

text \<open>The contract functions a transaction can carry, named as in the ABIs of the scripts.\<close>

datatype call =
    approve addr int
  | createAtoms "bytes list" "int list"
  | createTriples "bytes list" "bytes list" "bytes list" "int list"
  | deposit addr bytes int int
  | redeem addr bytes int int int
  | claimRewards addr

text \<open>
  What \<^verbatim>\<open>build_transaction\<close> returns: the contract and the encoded call, and the
  dictionary the script passes (\<^verbatim>\<open>from\<close>, \<^verbatim>\<open>nonce\<close>, \<^verbatim>\<open>gas\<close>, \<^verbatim>\<open>gasPrice\<close>, \<^verbatim>\<open>value\<close>;
  web3 fills \<^verbatim>\<open>value\<close> with 0 when the script leaves it out).
\<close>

record tx =
  tx_to :: addr
  tx_data :: call
  tx_from :: addr
  tx_nonce :: int
  tx_gas :: int
  tx_gasPrice :: int
  tx_value :: int

record receipt =
  blockNumber :: int
  gasUsed :: int
  status :: int

text \<open>The tuple \<^verbatim>\<open>getUserInfo\<close> returns, in the order of the ABI (indices 0 to 5).\<close>

record user_info =
  personalUtilization :: int
  eligibleRewards :: int
  maxRewards :: int
  lockedAmount :: int
  lockEnd :: int
  bondedBalance :: int

text \<open>The filter dictionary handed to \<^verbatim>\<open>w3.eth.get_logs\<close>.\<close>

record log_filter =
  fromBlock :: int
  toBlock :: int
  address :: addr
  topics :: "string list"

record 'c env =
  from_key :: "error + addr"
  to_checksum_address :: "string \<Rightarrow> addr"
  from_wei :: "int \<Rightarrow> string"
  keccak :: "string \<Rightarrow> string"
  is_connected :: "'c \<Rightarrow> bool"
  get_balance :: "'c \<Rightarrow> addr \<Rightarrow> error + int"
  balanceOf :: "'c \<Rightarrow> addr \<Rightarrow> error + int"
  allowance :: "'c \<Rightarrow> addr \<Rightarrow> addr \<Rightarrow> error + int"
  getAtomCost :: "'c \<Rightarrow> error + int"
  getTripleCost :: "'c \<Rightarrow> error + int"
  calculateAtomId :: "'c \<Rightarrow> bytes \<Rightarrow> error + bytes"
  calculateTripleId :: "'c \<Rightarrow> bytes \<Rightarrow> bytes \<Rightarrow> bytes \<Rightarrow> error + bytes"
  isTermCreated :: "'c \<Rightarrow> bytes \<Rightarrow> error + bool"
  getShares :: "'c \<Rightarrow> addr \<Rightarrow> bytes \<Rightarrow> int \<Rightarrow> error + int"
  previewDeposit :: "'c \<Rightarrow> bytes \<Rightarrow> int \<Rightarrow> int \<Rightarrow> error + int \<times> int"
  previewRedeem :: "'c \<Rightarrow> bytes \<Rightarrow> int \<Rightarrow> int \<Rightarrow> error + int \<times> int"
  currentEpoch :: "'c \<Rightarrow> error + int"
  previousEpoch :: "'c \<Rightarrow> error + int"
  getUserInfo :: "'c \<Rightarrow> addr \<Rightarrow> error + user_info"
  getUserCurrentClaimableRewards :: "'c \<Rightarrow> addr \<Rightarrow> error + int"
  getUserApy :: "'c \<Rightarrow> addr \<Rightarrow> error + int \<times> int"
  get_transaction_count :: "'c \<Rightarrow> addr \<Rightarrow> error + int"
  gas_price :: "'c \<Rightarrow> error + int"
  send_raw_transaction :: "'c \<Rightarrow> tx \<Rightarrow> error + hash \<times> 'c"
  wait_for_transaction_receipt :: "'c \<Rightarrow> hash \<Rightarrow> error + receipt \<times> 'c"
  get_logs :: "'c \<Rightarrow> log_filter \<Rightarrow> error + log_entry list"

section \<open>Traces\<close>

text \<open>
  A run of a script is the list of what it did, in order, and how it ended. Every read of
  the ledger is logged with its arguments, and so are the four steps of a transaction
  (built, signed, submitted, receipt awaited). Of the output only the lines that report a
  short circuit or an approval are kept (without their leading pictograph); the other
  \<^verbatim>\<open>print\<close> calls format values that are already in the trace. A step is logged when
  it is attempted, also when it then raises. Rendering an amount (\<open>from_wei\<close>) is taken to
  succeed; web3 raises for an amount below 0 or above \<open>2 ^ 256 - 1\<close>, and a \<^verbatim>\<open>print\<close>
  that raises so ends the script earlier than the run given here, which extends it.
\<close>

datatype request =
    rd_is_connected
  | rd_get_balance addr
  | rd_balanceOf addr
  | rd_allowance addr addr
  | rd_getAtomCost
  | rd_getTripleCost
  | rd_calculateAtomId bytes
  | rd_calculateTripleId bytes bytes bytes
  | rd_isTermCreated bytes
  | rd_getShares addr bytes int
  | rd_previewDeposit bytes int int
  | rd_previewRedeem bytes int int
  | rd_currentEpoch
  | rd_previousEpoch
  | rd_getUserInfo addr
  | rd_getUserCurrentClaimableRewards addr
  | rd_getUserApy addr
  | rd_get_transaction_count addr
  | rd_gas_price
  | rd_get_logs log_filter

datatype action =
    Read request
  | Build tx
  | Sign tx
  | Send tx
  | Wait hash
  | Print string

type_synonym 'r run = "action list \<times> 'r outcome"

definition emit :: "action \<Rightarrow> 'r run \<Rightarrow> 'r run" where
  "emit a r = (a # fst r, snd r)"

text \<open>A local call that may raise (nothing reaches the ledger).\<close>

definition attempt :: "error + 'a \<Rightarrow> ('a \<Rightarrow> 'r run) \<Rightarrow> 'r run" where
  "attempt ans k = (case ans of Inl e \<Rightarrow> ([], Raised e) | Inr v \<Rightarrow> k v)"

text \<open>A read of the ledger: logged, then either the exception or the rest of the script.\<close>

definition read :: "request \<Rightarrow> error + 'a \<Rightarrow> ('a \<Rightarrow> 'r run) \<Rightarrow> 'r run" where
  "read q ans k = (case ans of Inl e \<Rightarrow> ([Read q], Raised e) | Inr v \<Rightarrow> emit (Read q) (k v))"

text \<open>
  \<^verbatim>\<open>f(...).build_transaction({'from': a, 'nonce': w3.eth.get_transaction_count(a),
  'gas': g, 'gasPrice': w3.eth.gas_price, 'value': v})\<close>: the dictionary is evaluated first
  (nonce, then gas price, both read fresh), then the transaction is built.
\<close>

definition build_transaction ::
  "'c env \<Rightarrow> 'c \<Rightarrow> addr \<Rightarrow> call \<Rightarrow> addr \<Rightarrow> int \<Rightarrow> int \<Rightarrow> (tx \<Rightarrow> 'r run) \<Rightarrow> 'r run" where
  "build_transaction w c contract f sender gas val k =
     read (rd_get_transaction_count sender) (get_transaction_count w c sender) (\<lambda>nonce.
     read rd_gas_price (gas_price w c) (\<lambda>price.
       let t = \<lparr>tx_to = contract, tx_data = f, tx_from = sender, tx_nonce = nonce,
                tx_gas = gas, tx_gasPrice = price, tx_value = val\<rparr>
       in emit (Build t) (k t)))"

text \<open>
  \<^verbatim>\<open>signed = account.sign_transaction(t); h = w3.eth.send_raw_transaction(signed.rawTransaction)\<close>.
  Submitting moves the ledger to a new state.
\<close>

definition sign_and_send :: "'c env \<Rightarrow> 'c \<Rightarrow> tx \<Rightarrow> (hash \<Rightarrow> 'c \<Rightarrow> 'r run) \<Rightarrow> 'r run" where
  "sign_and_send w c t k =
     emit (Sign t)
       (case send_raw_transaction w c t of
          Inl e \<Rightarrow> ([Send t], Raised e)
        | Inr (h, c') \<Rightarrow> emit (Send t) (k h c'))"

text \<open>\<^verbatim>\<open>w3.eth.wait_for_transaction_receipt(h)\<close>: raises on a timeout, else the receipt.\<close>

definition wait_for_receipt :: "'c env \<Rightarrow> 'c \<Rightarrow> hash \<Rightarrow> (receipt \<Rightarrow> 'c \<Rightarrow> 'r run) \<Rightarrow> 'r run" where
  "wait_for_receipt w c h k =
     (case wait_for_transaction_receipt w c h of
        Inl e \<Rightarrow> ([Wait h], Raised e)
      | Inr (r, c') \<Rightarrow> emit (Wait h) (k r c'))"

text \<open>The transactions a trace built, and those it submitted.\<close>

fun built :: "action list \<Rightarrow> tx list" where
  "built [] = []"
| "built (Build t # as) = t # built as"
| "built (a # as) = built as"

fun submitted :: "action list \<Rightarrow> tx list" where
  "submitted [] = []"
| "submitted (Send t # as) = t # submitted as"
| "submitted (a # as) = submitted as"

section \<open>Configuration shared by the scripts\<close>

definition MULTIVAULT_ADDRESS :: string where
  "MULTIVAULT_ADDRESS = ''0x6E35cF57A41fA15eA0EaE9C33e751b01A784Fe7e''"

definition WTRUST_ADDRESS :: string where
  "WTRUST_ADDRESS = ''0x81cFb09cb44f7184Ad934C09F82000701A4bF672''"

definition TRUST_BONDING_ADDRESS :: string where
  "TRUST_BONDING_ADDRESS = ''0x635bBD1367B66E7B16a21D6E5A63C812fFC00617''"

definition SLIPPAGE_BPS :: int where
  "SLIPPAGE_BPS = 100"

section \<open>Slippage bound\<close>

text \<open>
  \<^verbatim>\<open>min_shares = expected_shares * (10000 - SLIPPAGE_BPS) // 10000\<close> in \<^verbatim>\<open>deposit-vault.py\<close>
  and \<^verbatim>\<open>min_assets = expected_assets * (10000 - SLIPPAGE_BPS) // 10000\<close> in
  \<^verbatim>\<open>redeem-shares.py\<close> are the same expression; \<open>*\<close> and \<open>//\<close> associate to the left, and
  \<open>//\<close> on Python integers is floor division, as \<open>div\<close> on \<open>int\<close>.
\<close>

definition slippage_bound :: "int \<Rightarrow> int \<Rightarrow> int" where
  "slippage_bound expected slippage_bps = expected * (10000 - slippage_bps) div 10000"

section \<open>redeem-shares.py\<close>

definition redeem_shares_main :: "'c env \<Rightarrow> 'c \<Rightarrow> bytes \<Rightarrow> int \<Rightarrow> int \<Rightarrow> int \<Rightarrow> unit run" where
  "redeem_shares_main w c term_id curve_id shares_requested slippage_bps =
     attempt (from_key w) (\<lambda>account.
     let multivault = to_checksum_address w MULTIVAULT_ADDRESS in
     read (rd_getShares account term_id curve_id) (getShares w c account term_id curve_id)
       (\<lambda>current_shares.
     if current_shares = 0 then ([Print ''No shares to redeem''], Returned ())
     else
       let shares_to_redeem = min shares_requested current_shares in
       read (rd_previewRedeem term_id curve_id shares_to_redeem)
         (previewRedeem w c term_id curve_id shares_to_redeem) (\<lambda>(expected_assets, shares_used).
       let min_assets = slippage_bound expected_assets slippage_bps in
       build_transaction w c multivault
         (redeem account term_id curve_id shares_to_redeem min_assets) account 200000 0
         (\<lambda>redeem_tx.
       sign_and_send w c redeem_tx (\<lambda>tx_hash c.
       wait_for_receipt w c tx_hash (\<lambda>receipt c.
       read (rd_getShares account term_id curve_id) (getShares w c account term_id curve_id)
         (\<lambda>new_shares. ([], Returned ()))))))))"

section \<open>create-atom.py\<close>

text \<open>
  Step 6 of the script (create the atom) is reached from both branches of step 5, so it is
  a definition of its own. Step 7 only decodes and prints the \<^verbatim>\<open>AtomCreated\<close> event of the
  receipt and is left out.
\<close>

definition create_atom_step6 ::
  "'c env \<Rightarrow> 'c \<Rightarrow> addr \<Rightarrow> addr \<Rightarrow> bytes \<Rightarrow> int \<Rightarrow> unit run" where
  "create_atom_step6 w c multivault account atom_data deposit_amount =
     build_transaction w c multivault (createAtoms [atom_data] [deposit_amount]) account 400000 0
       (\<lambda>create_tx.
     sign_and_send w c create_tx (\<lambda>create_hash c.
     wait_for_receipt w c create_hash (\<lambda>receipt c. ([], Returned ()))))"

definition create_atom_main :: "'c env \<Rightarrow> 'c \<Rightarrow> bytes \<Rightarrow> int \<Rightarrow> unit run" where
  "create_atom_main w c atom_data deposit_amount =
     emit (Read rd_is_connected)
     (if \<not> is_connected w c
      then ([], Raised (Exception ''Failed to connect to Intuition network''))
      else
     attempt (from_key w) (\<lambda>account.
     read (rd_get_balance account) (get_balance w c account) (\<lambda>eth_balance.
     let multivault = to_checksum_address w MULTIVAULT_ADDRESS;
         wtrust = to_checksum_address w WTRUST_ADDRESS in
     read (rd_balanceOf account) (balanceOf w c account) (\<lambda>wtrust_balance.
     read rd_getAtomCost (getAtomCost w c) (\<lambda>atom_cost.
     let total_required = deposit_amount + atom_cost in
     if wtrust_balance < total_required
     then ([], Raised (Exception (''Insufficient WTRUST balance. Need ''
                 @ from_wei w total_required @ '' but have '' @ from_wei w wtrust_balance)))
     else
     read (rd_calculateAtomId atom_data) (calculateAtomId w c atom_data) (\<lambda>atom_id.
     read (rd_isTermCreated atom_id) (isTermCreated w c atom_id) (\<lambda>atom_exists.
     if atom_exists then ([Print ''Warning: This atom already exists!''], Returned ())
     else
     read (rd_allowance account multivault) (allowance w c account multivault)
       (\<lambda>current_allowance.
     if current_allowance < total_required
     then
       build_transaction w c wtrust (approve multivault total_required) account 100000 0
         (\<lambda>approve_tx.
       sign_and_send w c approve_tx (\<lambda>approve_hash c.
       wait_for_receipt w c approve_hash (\<lambda>approve_receipt c.
       create_atom_step6 w c multivault account atom_data deposit_amount)))
     else
       emit (Print ''Sufficient allowance already exists'')
         (create_atom_step6 w c multivault account atom_data deposit_amount)))))))))"

section \<open>create-triple.py\<close>

text \<open>\<^verbatim>\<open>bytes.hex()\<close>: two lower-case hexadecimal digits per byte.\<close>

definition hex_digit :: "nat \<Rightarrow> char" where
  "hex_digit n = ''0123456789abcdef'' ! (n mod 16)"

definition hex :: "bytes \<Rightarrow> string" where
  "hex b = concat (map (\<lambda>ch. [hex_digit (of_char ch div 16), hex_digit (of_char ch mod 16)]) b)"

text \<open>
  The loop \<^verbatim>\<open>for atom_id in [SUBJECT_ID, PREDICATE_ID, OBJECT_ID]\<close>: one existence read per
  id, in order, raising at the first id that does not exist; \<open>k\<close> is the rest of the script.
\<close>

fun verify_atoms :: "'c env \<Rightarrow> 'c \<Rightarrow> bytes list \<Rightarrow> 'r run \<Rightarrow> 'r run" where
  "verify_atoms w c [] k = k"
| "verify_atoms w c (atom_id # ids) k =
     read (rd_isTermCreated atom_id) (isTermCreated w c atom_id) (\<lambda>exists.
     if \<not> exists then ([], Raised (Exception (''Atom '' @ hex atom_id @ '' does not exist'')))
     else verify_atoms w c ids k)"

definition create_triple_main ::
  "'c env \<Rightarrow> 'c \<Rightarrow> bytes \<Rightarrow> bytes \<Rightarrow> bytes \<Rightarrow> int \<Rightarrow> unit run" where
  "create_triple_main w c subject_id predicate_id object_id deposit_amount =
     attempt (from_key w) (\<lambda>account.
     let multivault = to_checksum_address w MULTIVAULT_ADDRESS;
         wtrust = to_checksum_address w WTRUST_ADDRESS in
     verify_atoms w c [subject_id, predicate_id, object_id]
     (read (rd_calculateTripleId subject_id predicate_id object_id)
        (calculateTripleId w c subject_id predicate_id object_id) (\<lambda>triple_id.
     read (rd_isTermCreated triple_id) (isTermCreated w c triple_id) (\<lambda>triple_exists.
     if triple_exists then ([Print ''Triple already exists''], Returned ())
     else
     read rd_getTripleCost (getTripleCost w c) (\<lambda>triple_cost.
     let total_amount = deposit_amount + triple_cost in
     build_transaction w c wtrust (approve multivault total_amount) account 100000 0
       (\<lambda>approve_tx.
     sign_and_send w c approve_tx (\<lambda>approve_hash c.
     emit (Print ''Approved'')
     (build_transaction w c multivault
        (createTriples [subject_id] [predicate_id] [object_id] [deposit_amount])
        account 500000 0 (\<lambda>create_tx.
     sign_and_send w c create_tx (\<lambda>tx_hash c.
     wait_for_receipt w c tx_hash (\<lambda>receipt c. ([], Returned ()))))))))))))"

section \<open>deposit-vault.py\<close>

definition deposit_vault_main :: "'c env \<Rightarrow> 'c \<Rightarrow> bytes \<Rightarrow> int \<Rightarrow> int \<Rightarrow> int \<Rightarrow> unit run" where
  "deposit_vault_main w c term_id curve_id deposit_amount slippage_bps =
     attempt (from_key w) (\<lambda>account.
     let multivault = to_checksum_address w MULTIVAULT_ADDRESS;
         wtrust = to_checksum_address w WTRUST_ADDRESS in
     read (rd_isTermCreated term_id) (isTermCreated w c term_id) (\<lambda>vault_exists.
     if \<not> vault_exists then ([], Raised (Exception ''Vault does not exist''))
     else
     read (rd_getShares account term_id curve_id) (getShares w c account term_id curve_id)
       (\<lambda>current_shares.
     read (rd_previewDeposit term_id curve_id deposit_amount)
       (previewDeposit w c term_id curve_id deposit_amount)
       (\<lambda>(expected_shares, assets_after_fees).
     let min_shares = slippage_bound expected_shares slippage_bps in
     build_transaction w c wtrust (approve multivault deposit_amount) account 100000 0
       (\<lambda>approve_tx.
     sign_and_send w c approve_tx (\<lambda>approve_hash c.
     emit (Print ''Approved'')
     (build_transaction w c multivault (deposit account term_id curve_id min_shares)
        account 200000 0 (\<lambda>deposit_tx.
     sign_and_send w c deposit_tx (\<lambda>tx_hash c.
     wait_for_receipt w c tx_hash (\<lambda>receipt c.
     read (rd_getShares account term_id curve_id) (getShares w c account term_id curve_id)
       (\<lambda>new_shares. ([], Returned ()))))))))))))"

section \<open>claim-rewards.py\<close>

definition claim_rewards_main :: "'c env \<Rightarrow> 'c \<Rightarrow> unit run" where
  "claim_rewards_main w c =
     attempt (from_key w) (\<lambda>account.
     let trust_bonding = to_checksum_address w TRUST_BONDING_ADDRESS in
     read rd_currentEpoch (currentEpoch w c) (\<lambda>current_epoch.
     read rd_previousEpoch (previousEpoch w c) (\<lambda>previous_epoch.
     read (rd_getUserInfo account) (getUserInfo w c account) (\<lambda>user_info.
     let bonded_balance = bondedBalance user_info;
         eligible_rewards = eligibleRewards user_info in
     if bonded_balance = 0
     then ([Print ''No bonded balance. Lock TRUST tokens first to earn rewards.''], Returned ())
     else
     read (rd_getUserCurrentClaimableRewards account)
       (getUserCurrentClaimableRewards w c account) (\<lambda>claimable.
     if claimable = 0 then ([Print ''No rewards to claim at this time''], Returned ())
     else
     read (rd_getUserApy account) (getUserApy w c account) (\<lambda>(current_apy, max_apy).
     build_transaction w c trust_bonding (claimRewards account) account 150000 0
       (\<lambda>claim_tx.
     sign_and_send w c claim_tx (\<lambda>tx_hash c.
     wait_for_receipt w c tx_hash (\<lambda>receipt c. ([], Returned ()))))))))))"

section \<open>The scripts as processes\<close>

text \<open>
  \<^verbatim>\<open>if __name__ == "__main__": try: main() except Exception as e: print(...); exit(1)\<close>.
  A run of \<^verbatim>\<open>main\<close> that returns ends the process with status 0; one that raises is
  reported by the handler and ends it with status 1. Every exception of the model is an
  \<^verbatim>\<open>Exception\<close>; an interrupt from outside is not part of it.
\<close>

definition run_script :: "(string \<Rightarrow> action list) \<Rightarrow> unit run \<Rightarrow> action list \<times> int" where
  "run_script handler r =
     (case snd r of
        Returned u \<Rightarrow> (fst r, 0)
      | Raised (Exception m) \<Rightarrow> (fst r @ handler m, 1))"

definition create_atom_script :: "'c env \<Rightarrow> 'c \<Rightarrow> bytes \<Rightarrow> int \<Rightarrow> action list \<times> int" where
  "create_atom_script w c atom_data deposit_amount =
     run_script (\<lambda>m. [Print ''Error creating atom:'', Print (''Message: '' @ m)])
       (create_atom_main w c atom_data deposit_amount)"

definition create_triple_script ::
  "'c env \<Rightarrow> 'c \<Rightarrow> bytes \<Rightarrow> bytes \<Rightarrow> bytes \<Rightarrow> int \<Rightarrow> action list \<times> int" where
  "create_triple_script w c subject_id predicate_id object_id deposit_amount =
     run_script (\<lambda>m. [Print (''Error: '' @ m)])
       (create_triple_main w c subject_id predicate_id object_id deposit_amount)"

definition deposit_vault_script ::
  "'c env \<Rightarrow> 'c \<Rightarrow> bytes \<Rightarrow> int \<Rightarrow> int \<Rightarrow> int \<Rightarrow> action list \<times> int" where
  "deposit_vault_script w c term_id curve_id deposit_amount slippage_bps =
     run_script (\<lambda>m. [Print (''Error: '' @ m)])
       (deposit_vault_main w c term_id curve_id deposit_amount slippage_bps)"

definition redeem_shares_script ::
  "'c env \<Rightarrow> 'c \<Rightarrow> bytes \<Rightarrow> int \<Rightarrow> int \<Rightarrow> int \<Rightarrow> action list \<times> int" where
  "redeem_shares_script w c term_id curve_id shares_requested slippage_bps =
     run_script (\<lambda>m. [Print (''Error: '' @ m)])
       (redeem_shares_main w c term_id curve_id shares_requested slippage_bps)"

definition claim_rewards_script :: "'c env \<Rightarrow> 'c \<Rightarrow> action list \<times> int" where
  "claim_rewards_script w c =
     run_script (\<lambda>m. [Print (''Error: '' @ m)]) (claim_rewards_main w c)"

section \<open>event-indexer.py\<close>

text \<open>
  The four topic constants are \<^verbatim>\<open>Web3.keccak(text=...).hex()\<close> of the event signatures;
  \<open>keccak w\<close> stands for that library call.
\<close>

definition ATOM_CREATED_TOPIC :: "'c env \<Rightarrow> string" where
  "ATOM_CREATED_TOPIC w = keccak w ''AtomCreated(address,bytes32,bytes,address)''"

definition TRIPLE_CREATED_TOPIC :: "'c env \<Rightarrow> string" where
  "TRIPLE_CREATED_TOPIC w = keccak w ''TripleCreated(address,bytes32,bytes32,bytes32,bytes32)''"

definition DEPOSITED_TOPIC :: "'c env \<Rightarrow> string" where
  "DEPOSITED_TOPIC w =
     keccak w ''Deposited(address,address,bytes32,uint256,uint256,uint256,uint256,uint256,uint8)''"

definition REDEEMED_TOPIC :: "'c env \<Rightarrow> string" where
  "REDEEMED_TOPIC w =
     keccak w ''Redeemed(address,address,bytes32,uint256,uint256,uint256,uint256,uint256,uint8)''"

text \<open>
  The result is a Python dictionary whose keys are set when it is created; it is an
  association list in insertion order, and an assignment to a key is \<open>AList.update\<close>.
\<close>

definition query_historical_events ::
  "'c env \<Rightarrow> 'c \<Rightarrow> int \<Rightarrow> int \<Rightarrow> ((string \<times> log_entry list) list) run" where
  "query_historical_events w c from_block to_block =
     (let multivault_address = to_checksum_address w MULTIVAULT_ADDRESS;
          events = [(''atoms_created'', []), (''triples_created'', []),
                    (''deposits'', []), (''redemptions'', [])];
          atom_filter = \<lparr>fromBlock = from_block, toBlock = to_block,
                         address = multivault_address, topics = [ATOM_CREATED_TOPIC w]\<rparr> in
      read (rd_get_logs atom_filter) (get_logs w c atom_filter) (\<lambda>atom_logs.
      let events = AList.update ''atoms_created'' atom_logs events;
          triple_filter = \<lparr>fromBlock = from_block, toBlock = to_block,
                           address = multivault_address, topics = [TRIPLE_CREATED_TOPIC w]\<rparr> in
      read (rd_get_logs triple_filter) (get_logs w c triple_filter) (\<lambda>triple_logs.
      let events = AList.update ''triples_created'' triple_logs events;
          deposit_filter = \<lparr>fromBlock = from_block, toBlock = to_block,
                            address = multivault_address, topics = [DEPOSITED_TOPIC w]\<rparr> in
      read (rd_get_logs deposit_filter) (get_logs w c deposit_filter) (\<lambda>deposit_logs.
      let events = AList.update ''deposits'' deposit_logs events;
          redeem_filter = \<lparr>fromBlock = from_block, toBlock = to_block,
                           address = multivault_address, topics = [REDEEMED_TOPIC w]\<rparr> in
      read (rd_get_logs redeem_filter) (get_logs w c redeem_filter) (\<lambda>redeem_logs.
      let events = AList.update ''redemptions'' redeem_logs events in
      ([], Returned events))))))"

text \<open>
  \<^verbatim>\<open>str.zfill(width)\<close>: zeros on the left up to \<open>width\<close>, after a leading sign if there is
  one; a string that is long enough is returned as it is.
\<close>

definition zfill :: "string \<Rightarrow> nat \<Rightarrow> string" where
  "zfill s width =
     (if width \<le> length s then s
      else case s of
             [] \<Rightarrow> replicate width CHR ''0''
           | ch # rest \<Rightarrow>
               if ch = CHR ''+'' \<or> ch = CHR ''-''
               then ch # replicate (width - length s) CHR ''0'' @ rest
               else replicate (width - length s) CHR ''0'' @ s)"

text \<open>\<^verbatim>\<open>user_topic = '0x' + user_address[2:].zfill(64)\<close>\<close>

definition user_topic :: "string \<Rightarrow> string" where
  "user_topic user_address = ''0x'' @ zfill (drop 2 user_address) 64"

definition query_user_events ::
  "'c env \<Rightarrow> 'c \<Rightarrow> string \<Rightarrow> int \<Rightarrow> int \<Rightarrow> ((string \<times> log_entry list) list) run" where
  "query_user_events w c user_address from_block to_block =
     (let multivault_address = to_checksum_address w MULTIVAULT_ADDRESS;
          user_topic = user_topic user_address;
          events = [(''atoms_created'', []), (''deposits'', []), (''redemptions'', [])];
          atom_filter = \<lparr>fromBlock = from_block, toBlock = to_block,
                         address = multivault_address,
                         topics = [ATOM_CREATED_TOPIC w, user_topic]\<rparr> in
      read (rd_get_logs atom_filter) (get_logs w c atom_filter) (\<lambda>atom_logs.
      let events = AList.update ''atoms_created'' atom_logs events;
          deposit_filter = \<lparr>fromBlock = from_block, toBlock = to_block,
                            address = multivault_address,
                            topics = [DEPOSITED_TOPIC w, user_topic]\<rparr> in
      read (rd_get_logs deposit_filter) (get_logs w c deposit_filter) (\<lambda>deposit_logs.
      let events = AList.update ''deposits'' deposit_logs events;
          redeem_filter = \<lparr>fromBlock = from_block, toBlock = to_block,
                           address = multivault_address,
                           topics = [REDEEMED_TOPIC w, user_topic]\<rparr> in
      read (rd_get_logs redeem_filter) (get_logs w c redeem_filter) (\<lambda>redeem_logs.
      let events = AList.update ''redemptions'' redeem_logs events in
      ([], Returned events)))))"

section \<open>Properties of traces\<close>

fun is_approval :: "call \<Rightarrow> bool" where
  "is_approval (approve spender amount) = True"
| "is_approval f = False"

text \<open>
  An approval is pending from its submission until a receipt is awaited. The trace is in
  order when no other transaction is submitted while an approval is pending.
\<close>

fun confirmed_before_spend :: "bool \<Rightarrow> action list \<Rightarrow> bool" where
  "confirmed_before_spend pending [] = True"
| "confirmed_before_spend pending (Send t # as) =
     (if is_approval (tx_data t) then confirmed_before_spend True as
      else \<not> pending \<and> confirmed_before_spend pending as)"
| "confirmed_before_spend pending (Wait h # as) = confirmed_before_spend False as"
| "confirmed_before_spend pending (a # as) = confirmed_before_spend pending as"

text \<open>The hashes whose receipt a trace awaited.\<close>

fun awaited :: "action list \<Rightarrow> hash list" where
  "awaited [] = []"
| "awaited (Wait h # as) = h # awaited as"
| "awaited (a # as) = awaited as"

text \<open>The filters of the log queries of a trace, and a filter with one more topic.\<close>

fun queries :: "action list \<Rightarrow> log_filter list" where
  "queries [] = []"
| "queries (Read (rd_get_logs f) # as) = f # queries as"
| "queries (a # as) = queries as"

definition with_topic :: "string \<Rightarrow> log_filter \<Rightarrow> log_filter" where
  "with_topic t f = f\<lparr>topics := topics f @ [t]\<rparr>"

definition kind_filter :: "'c env \<Rightarrow> int \<Rightarrow> int \<Rightarrow> string \<Rightarrow> log_filter" where
  "kind_filter w from_block to_block topic =
     \<lparr>fromBlock = from_block, toBlock = to_block,
      address = to_checksum_address w MULTIVAULT_ADDRESS, topics = [topic]\<rparr>"

text \<open>Every action of a run satisfies \<open>Q\<close>.\<close>

definition every :: "(action \<Rightarrow> bool) \<Rightarrow> 'r run \<Rightarrow> bool" where
  "every Q r = list_all Q (fst r)"

section \<open>A concrete ledger\<close>

text \<open>
  The constants of the scripts, and a ledger on which every call succeeds: the three atoms
  of \<^verbatim>\<open>create-triple.py\<close> exist and nothing else does, the account has funds and shares and
  no allowance, and the ledger state counts the transactions submitted so far.
\<close>

definition ether :: "int \<Rightarrow> int" where
  "ether n = n * 1000000000000000000"

definition ATOM_DATA :: bytes where
  "ATOM_DATA = ''My First Atom''"

definition SUBJECT_ID :: bytes where
  "SUBJECT_ID = replicate 31 (CHR 0x00) @ [CHR 0x01]"

definition PREDICATE_ID :: bytes where
  "PREDICATE_ID = replicate 31 (CHR 0x00) @ [CHR 0x02]"

definition OBJECT_ID :: bytes where
  "OBJECT_ID = replicate 31 (CHR 0x00) @ [CHR 0x03]"

definition TERM_ID :: bytes where
  "TERM_ID = replicate 31 (CHR 0x00) @ [CHR 0x01]"

definition CURVE_ID :: int where
  "CURVE_ID = 1"

definition alice :: addr where
  "alice = ''0x52908400098527886E0F7030069857D2E4169EE7''"

definition ledger0 :: "nat env" where
  "ledger0 =
     \<lparr>from_key = Inr alice,
      to_checksum_address = (\<lambda>s. s),
      from_wei = (\<lambda>n. if n < 0 then ''-'' else ''+''),
      keccak = (\<lambda>s. ''keccak:'' @ s),
      is_connected = (\<lambda>c. True),
      get_balance = (\<lambda>c a. Inr (ether 1)),
      balanceOf = (\<lambda>c a. Inr (ether 100)),
      allowance = (\<lambda>c a b. Inr 0),
      getAtomCost = (\<lambda>c. Inr 100000000000000000),
      getTripleCost = (\<lambda>c. Inr 200000000000000000),
      calculateAtomId = (\<lambda>c d. Inr (''atom:'' @ d)),
      calculateTripleId = (\<lambda>c s p ob. Inr (''triple:'' @ s @ p @ ob)),
      isTermCreated = (\<lambda>c i. Inr (i = SUBJECT_ID \<or> i = PREDICATE_ID \<or> i = OBJECT_ID)),
      getShares = (\<lambda>c a t k. Inr (ether 3)),
      previewDeposit = (\<lambda>c t k a. Inr (1000, a)),
      previewRedeem = (\<lambda>c t k n. Inr (n, n)),
      currentEpoch = (\<lambda>c. Inr 5),
      previousEpoch = (\<lambda>c. Inr 4),
      getUserInfo = (\<lambda>c a. Inr \<lparr>personalUtilization = 1, eligibleRewards = 9,
                                  maxRewards = 10, lockedAmount = 7, lockEnd = 0,
                                  bondedBalance = 7\<rparr>),
      getUserCurrentClaimableRewards = (\<lambda>c a. Inr 9),
      getUserApy = (\<lambda>c a. Inr (500, 1000)),
      get_transaction_count = (\<lambda>c a. Inr (int c)),
      gas_price = (\<lambda>c. Inr 1),
      send_raw_transaction = (\<lambda>c t. Inr (if c = 0 then ''0xaa'' else ''0xbb'', Suc c)),
      wait_for_transaction_receipt =
        (\<lambda>c h. Inr (\<lparr>blockNumber = 12345, gasUsed = 21000, status = 1\<rparr>, c)),
      get_logs = (\<lambda>c f. Inr [])\<rparr>"

text \<open>Variants of the ledger: one answer changed each.\<close>

definition ledger_down :: "nat env" where
  "ledger_down = ledger0\<lparr>is_connected := \<lambda>c. False\<rparr>"

definition ledger_rich :: "nat env" where
  "ledger_rich = ledger0\<lparr>allowance := \<lambda>c a b. Inr (ether 1000)\<rparr>"

definition ledger_no_atoms :: "nat env" where
  "ledger_no_atoms = ledger0\<lparr>isTermCreated := \<lambda>c i. Inr False\<rparr>"

definition ledger_subject_only :: "nat env" where
  "ledger_subject_only = ledger0\<lparr>isTermCreated := \<lambda>c i. Inr (i = SUBJECT_ID)\<rparr>"

definition ledger_no_object :: "nat env" where
  "ledger_no_object =
     ledger0\<lparr>isTermCreated := \<lambda>c i. Inr (i = SUBJECT_ID \<or> i = PREDICATE_ID)\<rparr>"

definition ledger_all_created :: "nat env" where
  "ledger_all_created = ledger0\<lparr>isTermCreated := \<lambda>c i. Inr True\<rparr>"

definition ledger_no_shares :: "nat env" where
  "ledger_no_shares = ledger0\<lparr>getShares := \<lambda>c a t k. Inr 0\<rparr>"

definition ledger_no_bond :: "nat env" where
  "ledger_no_bond =
     ledger0\<lparr>getUserInfo := \<lambda>c a. Inr \<lparr>personalUtilization = 0, eligibleRewards = 0,
       maxRewards = 0, lockedAmount = 0, lockEnd = 0, bondedBalance = 0\<rparr>\<rparr>"

definition ledger_no_rewards :: "nat env" where
  "ledger_no_rewards = ledger0\<lparr>getUserCurrentClaimableRewards := \<lambda>c a. Inr 0\<rparr>"

definition ledger_poor :: "nat env" where
  "ledger_poor = ledger_all_created\<lparr>balanceOf := \<lambda>c a. Inr (ether 5)\<rparr>"

section \<open>Reasoning about runs\<close>

text \<open>
  A run is built from a few steps, each followed by the rest of the script. A property of
  all actions of a run reduces, step by step, to the property of the actions of each step
  under the answers the ledger gave so far.
\<close>

lemma emit_pair [simp]: "emit a (as, out) = (a # as, out)"
  by (simp add: emit_def)

lemmas run_defs =
  attempt_def read_def build_transaction_def sign_and_send_def wait_for_receipt_def

lemmas main_defs =
  create_atom_main_def create_atom_step6_def create_triple_main_def deposit_vault_main_def
  redeem_shares_main_def claim_rewards_main_def

lemmas config_defs =
  MULTIVAULT_ADDRESS_def WTRUST_ADDRESS_def TRUST_BONDING_ADDRESS_def SLIPPAGE_BPS_def
  ether_def ATOM_DATA_def SUBJECT_ID_def PREDICATE_ID_def OBJECT_ID_def TERM_ID_def
  CURVE_ID_def alice_def

lemmas ledger_defs =
  ledger0_def ledger_down_def ledger_rich_def ledger_no_atoms_def ledger_subject_only_def
  ledger_no_object_def ledger_all_created_def ledger_no_shares_def ledger_no_bond_def
  ledger_no_rewards_def ledger_poor_def

lemma every_done [simp]: "every Q (as, out) \<longleftrightarrow> list_all Q as"
  by (simp add: every_def)

lemma every_emit [simp]: "every Q (emit a r) \<longleftrightarrow> Q a \<and> every Q r"
  by (simp add: every_def emit_def)

lemma every_attempt [simp]:
  "every Q (attempt ans k) \<longleftrightarrow> (\<forall>v. ans = Inr v \<longrightarrow> every Q (k v))"
  by (cases ans) (simp_all add: every_def attempt_def)

lemma every_read [simp]:
  "every Q (read q ans k) \<longleftrightarrow> Q (Read q) \<and> (\<forall>v. ans = Inr v \<longrightarrow> every Q (k v))"
  by (cases ans) (simp_all add: every_def read_def emit_def)

lemma every_build_transaction [simp]:
  "every Q (build_transaction w c contract f sender gas val k) \<longleftrightarrow>
     Q (Read (rd_get_transaction_count sender))
     \<and> (\<forall>nonce. get_transaction_count w c sender = Inr nonce \<longrightarrow>
          Q (Read rd_gas_price)
          \<and> (\<forall>price. gas_price w c = Inr price \<longrightarrow>
               Q (Build \<lparr>tx_to = contract, tx_data = f, tx_from = sender, tx_nonce = nonce,
                         tx_gas = gas, tx_gasPrice = price, tx_value = val\<rparr>)
               \<and> every Q (k \<lparr>tx_to = contract, tx_data = f, tx_from = sender,
                               tx_nonce = nonce, tx_gas = gas, tx_gasPrice = price,
                               tx_value = val\<rparr>)))"
  by (simp add: build_transaction_def Let_def)

lemma every_sign_and_send [simp]:
  "every Q (sign_and_send w c t k) \<longleftrightarrow>
     Q (Sign t) \<and> Q (Send t)
     \<and> (\<forall>h c'. send_raw_transaction w c t = Inr (h, c') \<longrightarrow> every Q (k h c'))"
  by (cases "send_raw_transaction w c t")
     (auto simp: sign_and_send_def every_def emit_def)

lemma every_wait_for_receipt [simp]:
  "every Q (wait_for_receipt w c h k) \<longleftrightarrow>
     Q (Wait h)
     \<and> (\<forall>r c'. wait_for_transaction_receipt w c h = Inr (r, c') \<longrightarrow> every Q (k r c'))"
  by (cases "wait_for_transaction_receipt w c h")
     (auto simp: wait_for_receipt_def every_def emit_def)

lemma built_every:
  "(\<forall>t \<in> set (built (fst r)). P t) \<longleftrightarrow> every (\<lambda>a. \<forall>t. a = Build t \<longrightarrow> P t) r"
proof -
  have "(\<forall>t \<in> set (built as). P t) \<longleftrightarrow> list_all (\<lambda>a. \<forall>t. a = Build t \<longrightarrow> P t) as" for as
    by (induction as rule: built.induct) auto
  then show ?thesis by (simp add: every_def)
qed

lemma submitted_every:
  "(\<forall>t \<in> set (submitted (fst r)). P t) \<longleftrightarrow> every (\<lambda>a. \<forall>t. a = Send t \<longrightarrow> P t) r"
proof -
  have "(\<forall>t \<in> set (submitted as). P t) \<longleftrightarrow> list_all (\<lambda>a. \<forall>t. a = Send t \<longrightarrow> P t) as" for as
    by (induction as rule: submitted.induct) auto
  then show ?thesis by (simp add: every_def)
qed

lemma set_every: "(\<forall>a \<in> set (fst r). Q a) \<longleftrightarrow> every Q r"
  by (simp add: every_def list_all_iff)

lemma built_empty_every: "built (fst r) = [] \<longleftrightarrow> every (\<lambda>a. \<forall>t. a \<noteq> Build t) r"
proof -
  have "built as = [] \<longleftrightarrow> list_all (\<lambda>a. \<forall>t. a \<noteq> Build t) as" for as
    by (induction as rule: built.induct) auto
  then show ?thesis by (simp add: every_def)
qed

lemma submitted_empty_every: "submitted (fst r) = [] \<longleftrightarrow> every (\<lambda>a. \<forall>t. a \<noteq> Send t) r"
proof -
  have "submitted as = [] \<longleftrightarrow> list_all (\<lambda>a. \<forall>t. a \<noteq> Send t) as" for as
    by (induction as rule: submitted.induct) auto
  then show ?thesis by (simp add: every_def)
qed

text \<open>The same for the order of approvals and spends.\<close>

lemma in_order_emit_read [simp]:
  "confirmed_before_spend p (fst (emit (Read q) r)) = confirmed_before_spend p (fst r)"
  by (simp add: emit_def)

lemma in_order_emit_print [simp]:
  "confirmed_before_spend p (fst (emit (Print s) r)) = confirmed_before_spend p (fst r)"
  by (simp add: emit_def)

lemma in_order_attempt [simp]:
  "confirmed_before_spend p (fst (attempt ans k))
     \<longleftrightarrow> (\<forall>v. ans = Inr v \<longrightarrow> confirmed_before_spend p (fst (k v)))"
  by (cases ans) (simp_all add: attempt_def)

lemma in_order_read [simp]:
  "confirmed_before_spend p (fst (read q ans k))
     \<longleftrightarrow> (\<forall>v. ans = Inr v \<longrightarrow> confirmed_before_spend p (fst (k v)))"
  by (cases ans) (simp_all add: read_def emit_def)

lemma in_order_build_transaction [simp]:
  "confirmed_before_spend p (fst (build_transaction w c contract f sender gas val k))
     \<longleftrightarrow> (\<forall>nonce price. get_transaction_count w c sender = Inr nonce
            \<longrightarrow> gas_price w c = Inr price
            \<longrightarrow> confirmed_before_spend p
                  (fst (k \<lparr>tx_to = contract, tx_data = f, tx_from = sender, tx_nonce = nonce,
                           tx_gas = gas, tx_gasPrice = price, tx_value = val\<rparr>)))"
  by (auto simp: build_transaction_def Let_def emit_def)

lemma in_order_sign_and_send [simp]:
  "confirmed_before_spend p (fst (sign_and_send w c t k))
     \<longleftrightarrow> (if is_approval (tx_data t)
          then (\<forall>h c'. send_raw_transaction w c t = Inr (h, c')
                  \<longrightarrow> confirmed_before_spend True (fst (k h c')))
          else \<not> p \<and> (\<forall>h c'. send_raw_transaction w c t = Inr (h, c')
                  \<longrightarrow> confirmed_before_spend p (fst (k h c'))))"
  by (cases "send_raw_transaction w c t") (auto simp: sign_and_send_def emit_def)

lemma in_order_wait_for_receipt [simp]:
  "confirmed_before_spend p (fst (wait_for_receipt w c h k))
     \<longleftrightarrow> (\<forall>r c'. wait_for_transaction_receipt w c h = Inr (r, c')
            \<longrightarrow> confirmed_before_spend False (fst (k r c')))"
  by (cases "wait_for_transaction_receipt w c h") (auto simp: wait_for_receipt_def emit_def)

section \<open>Allowance and approval\<close>

lemma atom_approvals_built:
  "\<forall>t \<in> set (built (fst (create_atom_main w c atom_data amount))). is_approval (tx_data t) \<longrightarrow>
     (\<exists>account cost current. from_key w = Inr account \<and> getAtomCost w c = Inr cost
        \<and> allowance w c account (to_checksum_address w MULTIVAULT_ADDRESS) = Inr current
        \<and> current < amount + cost
        \<and> tx_data t = approve (to_checksum_address w MULTIVAULT_ADDRESS) (amount + cost))"
  unfolding built_every create_atom_main_def create_atom_step6_def
  by (simp add: Let_def)

lemma atom_approvals_submitted:
  "\<forall>t \<in> set (submitted (fst (create_atom_main w c atom_data amount))). is_approval (tx_data t) \<longrightarrow>
     (\<exists>account cost current. from_key w = Inr account \<and> getAtomCost w c = Inr cost
        \<and> allowance w c account (to_checksum_address w MULTIVAULT_ADDRESS) = Inr current
        \<and> current < amount + cost
        \<and> tx_data t = approve (to_checksum_address w MULTIVAULT_ADDRESS) (amount + cost))"
  unfolding submitted_every create_atom_main_def create_atom_step6_def
  by (simp add: Let_def)

lemma triple_approvals_built:
  "\<forall>t \<in> set (built (fst (create_triple_main w c s p ob amount))). is_approval (tx_data t) \<longrightarrow>
     (\<exists>cost. getTripleCost w c = Inr cost
        \<and> tx_data t = approve (to_checksum_address w MULTIVAULT_ADDRESS) (amount + cost))"
  unfolding built_every create_triple_main_def
  by (simp add: Let_def)

lemma triple_approvals_submitted:
  "\<forall>t \<in> set (submitted (fst (create_triple_main w c s p ob amount))). is_approval (tx_data t) \<longrightarrow>
     (\<exists>cost. getTripleCost w c = Inr cost
        \<and> tx_data t = approve (to_checksum_address w MULTIVAULT_ADDRESS) (amount + cost))"
  unfolding submitted_every create_triple_main_def
  by (simp add: Let_def)

lemma deposit_approvals_built:
  "\<forall>t \<in> set (built (fst (deposit_vault_main w c term_id curve_id amount bps))).
     is_approval (tx_data t) \<longrightarrow>
       tx_data t = approve (to_checksum_address w MULTIVAULT_ADDRESS) amount"
  unfolding built_every deposit_vault_main_def
  by (simp add: Let_def)

lemma deposit_approvals_submitted:
  "\<forall>t \<in> set (submitted (fst (deposit_vault_main w c term_id curve_id amount bps))).
     is_approval (tx_data t) \<longrightarrow>
       tx_data t = approve (to_checksum_address w MULTIVAULT_ADDRESS) amount"
  unfolding submitted_every deposit_vault_main_def
  by (simp add: Let_def)

lemma triple_never_reads_allowance:
  "\<forall>a \<in> set (fst (create_triple_main w c s p ob amount)). \<forall>x y. a \<noteq> Read (rd_allowance x y)"
  unfolding set_every create_triple_main_def
  by (simp add: Let_def)

lemma deposit_never_reads_allowance:
  "\<forall>a \<in> set (fst (deposit_vault_main w c term_id curve_id amount bps)).
     \<forall>x y. a \<noteq> Read (rd_allowance x y)"
  unfolding set_every deposit_vault_main_def
  by (simp add: Let_def)

text \<open>
  C1, as the spec states it: in atom creation, triple creation and deposit alike, no
  approval is built or submitted when the current allowance already covers the required
  amount. On a ledger where the account has granted the MultiVault an allowance of 1000
  tokens, \<^verbatim>\<open>create-triple.py\<close> needs 20.2 tokens and submits an approval all the same,
  followed by the creation.
\<close>

theorem C1_triple_approves_despite_allowance:
  "allowance ledger_rich 0 alice MULTIVAULT_ADDRESS
     = Inr (ether 1000)
   \<and> getTripleCost ledger_rich 0
     = Inr 200000000000000000
   \<and> ether 20 + 200000000000000000 \<le> ether 1000
   \<and> map tx_data (submitted (fst (create_triple_main
        ledger_rich 0
        SUBJECT_ID PREDICATE_ID OBJECT_ID (ether 20))))
     = [approve MULTIVAULT_ADDRESS (ether 20 + 200000000000000000),
        createTriples [SUBJECT_ID] [PREDICATE_ID] [OBJECT_ID] [ether 20]]"
  by (simp add: main_defs run_defs ledger_defs config_defs Let_def)

text \<open>
  C1, amended: atom creation reads the allowance and builds or submits an approval only
  when it is below the required amount \<open>deposit + atomCost\<close>, and then for exactly that
  amount. Triple creation and deposit never read the allowance; every approval they build
  or submit is for exactly the required amount (\<open>deposit + tripleCost\<close>, and the deposit).
\<close>

theorem C1_approval_amounts:
  "(\<forall>t \<in> set (built (fst (create_atom_main w c atom_data amount)))
         \<union> set (submitted (fst (create_atom_main w c atom_data amount))).
      is_approval (tx_data t) \<longrightarrow>
      (\<exists>account cost current. from_key w = Inr account \<and> getAtomCost w c = Inr cost
         \<and> allowance w c account (to_checksum_address w MULTIVAULT_ADDRESS) = Inr current
         \<and> current < amount + cost
         \<and> tx_data t = approve (to_checksum_address w MULTIVAULT_ADDRESS) (amount + cost)))
   \<and> (\<forall>t \<in> set (built (fst (create_triple_main w c s p ob amount')))
         \<union> set (submitted (fst (create_triple_main w c s p ob amount'))).
      is_approval (tx_data t) \<longrightarrow>
      (\<exists>cost. getTripleCost w c = Inr cost
         \<and> tx_data t = approve (to_checksum_address w MULTIVAULT_ADDRESS) (amount' + cost)))
   \<and> (\<forall>t \<in> set (built (fst (deposit_vault_main w c term_id curve_id amount'' bps)))
         \<union> set (submitted (fst (deposit_vault_main w c term_id curve_id amount'' bps))).
      is_approval (tx_data t) \<longrightarrow>
      tx_data t = approve (to_checksum_address w MULTIVAULT_ADDRESS) amount'')
   \<and> (\<forall>a \<in> set (fst (create_triple_main w c s p ob amount')).
        \<forall>x y. a \<noteq> Read (rd_allowance x y))
   \<and> (\<forall>a \<in> set (fst (deposit_vault_main w c term_id curve_id amount'' bps)).
        \<forall>x y. a \<noteq> Read (rd_allowance x y))"
  using atom_approvals_built [of w c atom_data amount]
    atom_approvals_submitted [of w c atom_data amount]
    triple_approvals_built [of w c s p ob amount']
    triple_approvals_submitted [of w c s p ob amount']
    deposit_approvals_built [of w c term_id curve_id amount'' bps]
    deposit_approvals_submitted [of w c term_id curve_id amount'' bps]
    triple_never_reads_allowance [of w c s p ob amount']
    deposit_never_reads_allowance [of w c term_id curve_id amount'' bps]
  unfolding ball_Un by blast

theorem C1_approval_amounts_witness:
  "map tx_data (built (fst (create_atom_main ledger0 0 ATOM_DATA (ether 10))))
     = [approve MULTIVAULT_ADDRESS (ether 10 + 100000000000000000),
        createAtoms [ATOM_DATA] [ether 10]]
   \<and> (\<exists>current. allowance ledger0 0 alice MULTIVAULT_ADDRESS = Inr current
         \<and> current < ether 10 + 100000000000000000)
   \<and> map tx_data (built (fst (create_atom_main ledger_rich 0 ATOM_DATA (ether 10))))
     = [createAtoms [ATOM_DATA] [ether 10]]
   \<and> map tx_data (built (fst (create_triple_main ledger_rich 0
        SUBJECT_ID PREDICATE_ID OBJECT_ID (ether 20))))
     = [approve MULTIVAULT_ADDRESS (ether 20 + 200000000000000000),
        createTriples [SUBJECT_ID] [PREDICATE_ID] [OBJECT_ID] [ether 20]]
   \<and> (\<exists>cost. getTripleCost ledger_rich 0 = Inr cost \<and> cost = 200000000000000000)
   \<and> map tx_data (built (fst (deposit_vault_main ledger_rich 0 TERM_ID CURVE_ID (ether 5)
        SLIPPAGE_BPS)))
     = [approve MULTIVAULT_ADDRESS (ether 5), deposit alice TERM_ID CURVE_ID 990]"
proof -
  let ?t = "\<lparr>tx_to = WTRUST_ADDRESS,
             tx_data = approve MULTIVAULT_ADDRESS (ether 10 + 100000000000000000),
             tx_from = alice, tx_nonce = 0, tx_gas = 100000, tx_gasPrice = 1,
             tx_value = 0\<rparr>"
  let ?u = "\<lparr>tx_to = MULTIVAULT_ADDRESS, tx_data = createAtoms [ATOM_DATA] [ether 10],
             tx_from = alice, tx_nonce = 1, tx_gas = 400000, tx_gasPrice = 1,
             tx_value = 0\<rparr>"
  let ?a = "\<lparr>tx_to = WTRUST_ADDRESS,
             tx_data = approve MULTIVAULT_ADDRESS (ether 20 + 200000000000000000),
             tx_from = alice, tx_nonce = 0, tx_gas = 100000, tx_gasPrice = 1,
             tx_value = 0\<rparr>"
  let ?b = "\<lparr>tx_to = MULTIVAULT_ADDRESS,
             tx_data = createTriples [SUBJECT_ID] [PREDICATE_ID] [OBJECT_ID] [ether 20],
             tx_from = alice, tx_nonce = 1, tx_gas = 500000, tx_gasPrice = 1,
             tx_value = 0\<rparr>"
  have run: "built (fst (create_atom_main ledger0 0 ATOM_DATA (ether 10))) = [?t, ?u]"
    by (simp add: main_defs run_defs ledger_defs config_defs Let_def)
  have rich: "built (fst (create_atom_main ledger_rich 0 ATOM_DATA (ether 10)))
     = [\<lparr>tx_to = MULTIVAULT_ADDRESS, tx_data = createAtoms [ATOM_DATA] [ether 10],
         tx_from = alice, tx_nonce = 0, tx_gas = 400000, tx_gasPrice = 1, tx_value = 0\<rparr>]"
    by (simp add: main_defs run_defs ledger_defs config_defs Let_def)
  have triple: "built (fst (create_triple_main ledger_rich 0
        SUBJECT_ID PREDICATE_ID OBJECT_ID (ether 20))) = [?a, ?b]"
    by (simp add: main_defs run_defs ledger_defs config_defs Let_def)
  have dep: "map tx_data (built (fst (deposit_vault_main ledger_rich 0 TERM_ID CURVE_ID
        (ether 5) SLIPPAGE_BPS)))
     = [approve MULTIVAULT_ADDRESS (ether 5), deposit alice TERM_ID CURVE_ID 990]"
    by (simp add: main_defs run_defs ledger_defs config_defs slippage_bound_def Let_def)
  have mem: "?t \<in> set (built (fst (create_atom_main ledger0 0 ATOM_DATA (ether 10))))
                 \<union> set (submitted (fst (create_atom_main ledger0 0 ATOM_DATA (ether 10))))"
    unfolding run by simp
  have "is_approval (tx_data ?t)" by simp
  with C1_approval_amounts [of ledger0 0 ATOM_DATA "ether 10", THEN conjunct1] mem
  obtain account cost current where
    "from_key ledger0 = Inr account" "getAtomCost ledger0 0 = Inr cost"
    "allowance ledger0 0 account (to_checksum_address ledger0 MULTIVAULT_ADDRESS) = Inr current"
    "current < ether 10 + cost"
    by blast
  then have atom: "\<exists>current. allowance ledger0 0 alice MULTIVAULT_ADDRESS = Inr current
         \<and> current < ether 10 + 100000000000000000"
    by (auto simp: ledger_defs)
  have mem': "?a \<in> set (built (fst (create_triple_main ledger_rich 0
        SUBJECT_ID PREDICATE_ID OBJECT_ID (ether 20))))
      \<union> set (submitted (fst (create_triple_main ledger_rich 0
        SUBJECT_ID PREDICATE_ID OBJECT_ID (ether 20))))"
    unfolding triple by simp
  have "is_approval (tx_data ?a)" by simp
  with C1_approval_amounts [of ledger_rich 0 _ _ SUBJECT_ID PREDICATE_ID OBJECT_ID
      "ether 20", THEN conjunct2, THEN conjunct1] mem'
  obtain cost where "getTripleCost ledger_rich 0 = Inr cost"
    "tx_data ?a = approve (to_checksum_address ledger_rich MULTIVAULT_ADDRESS) (ether 20 + cost)"
    by blast
  then have cost: "\<exists>cost. getTripleCost ledger_rich 0 = Inr cost \<and> cost = 200000000000000000"
    by simp
  from atom cost dep show ?thesis unfolding run rich triple by simp
qed

section \<open>Approval before spend\<close>

lemma create_atom_confirms_approval:
  "confirmed_before_spend False (fst (create_atom_main w c atom_data amount))"
  unfolding create_atom_main_def create_atom_step6_def
  by (simp add: Let_def)

text \<open>
  C2: a spend is never submitted before the approval it depends on has a receipt.
  \<^verbatim>\<open>create-atom.py\<close> waits for the receipt of its approval on every ledger
  (\<open>create_atom_confirms_approval\<close>). \<^verbatim>\<open>create-triple.py\<close> and \<^verbatim>\<open>deposit-vault.py\<close> do not:
  on the ledger where every call succeeds they submit the approval (hash \<^verbatim>\<open>0xaa\<close>), print
  \<^verbatim>\<open>Approved\<close>, and submit the spend; the only receipt they await is that of the spend
  (hash \<^verbatim>\<open>0xbb\<close>).
\<close>

theorem C2_spend_before_approval_receipt:
  "\<not> confirmed_before_spend False
       (fst (create_triple_main ledger0 0 SUBJECT_ID PREDICATE_ID OBJECT_ID (ether 20)))
   \<and> map tx_data (submitted
       (fst (create_triple_main ledger0 0 SUBJECT_ID PREDICATE_ID OBJECT_ID (ether 20))))
     = [approve MULTIVAULT_ADDRESS (ether 20 + 200000000000000000),
        createTriples [SUBJECT_ID] [PREDICATE_ID] [OBJECT_ID] [ether 20]]
   \<and> awaited (fst (create_triple_main ledger0 0 SUBJECT_ID PREDICATE_ID OBJECT_ID (ether 20)))
     = [''0xbb'']
   \<and> \<not> confirmed_before_spend False
       (fst (deposit_vault_main ledger0 0 TERM_ID CURVE_ID (ether 5) SLIPPAGE_BPS))
   \<and> map tx_data (submitted
       (fst (deposit_vault_main ledger0 0 TERM_ID CURVE_ID (ether 5) SLIPPAGE_BPS)))
     = [approve MULTIVAULT_ADDRESS (ether 5), deposit alice TERM_ID CURVE_ID 990]
   \<and> awaited (fst (deposit_vault_main ledger0 0 TERM_ID CURVE_ID (ether 5) SLIPPAGE_BPS))
     = [''0xbb'']"
  by (simp add: main_defs run_defs ledger_defs config_defs slippage_bound_def Let_def)

section \<open>Slippage bounds\<close>

lemma slippage_bound_floor:
  "slippage_bound e b = \<lfloor>(of_int (e * (10000 - b)) :: real) / 10000\<rfloor>"
proof -
  have "\<lfloor>(of_int (e * (10000 - b)) :: real) / of_int 10000\<rfloor> = (e * (10000 - b)) div 10000"
    by (rule floor_divide_of_int_eq)
  then show ?thesis by (simp add: slippage_bound_def)
qed

lemma slippage_bound_le:
  assumes e: "0 \<le> e" and b: "0 \<le> b"
  shows "slippage_bound e b \<le> e"
proof -
  have "e * (10000 - b) \<le> e * 10000" using e b by (intro mult_left_mono) auto
  then have "e * (10000 - b) div 10000 \<le> e * 10000 div 10000" by (rule zdiv_mono1) simp
  then show ?thesis by (simp add: slippage_bound_def)
qed

lemma slippage_bound_zero_bps: "slippage_bound e 0 = e"
  by (simp add: slippage_bound_def)

lemma slippage_bound_eq_iff:
  assumes e: "0 < e" and b: "0 \<le> b"
  shows "slippage_bound e b = e \<longleftrightarrow> b = 0"
proof
  assume eq: "slippage_bound e b = e"
  show "b = 0"
  proof (rule ccontr)
    assume "b \<noteq> 0"
    then have "0 < b" using b by simp
    then have "e * (10000 - b) < e * 10000" using e by simp
    then have "e * (10000 - b) div 10000 < e"
      by (simp add: div_less_iff_less_mult)
    then show False using eq by (simp add: slippage_bound_def)
  qed
next
  assume "b = 0"
  then show "slippage_bound e b = e" by (simp add: slippage_bound_zero_bps)
qed

text \<open>The bound is what the two scripts put into the transaction they build.\<close>

lemma deposit_min_shares:
  "\<forall>t \<in> set (built (fst (deposit_vault_main w c term_id curve_id amount bps))).
     \<forall>receiver i k m. tx_data t = deposit receiver i k m \<longrightarrow>
       (\<exists>expected fees. previewDeposit w c term_id curve_id amount = Inr (expected, fees)
          \<and> m = slippage_bound expected bps)"
  unfolding built_every deposit_vault_main_def
  by (simp add: Let_def)

lemma redeem_min_assets:
  "\<forall>t \<in> set (built (fst (redeem_shares_main w c term_id curve_id req bps))).
     \<forall>receiver i k n m. tx_data t = redeem receiver i k n m \<longrightarrow>
       (\<exists>expected used. previewRedeem w c term_id curve_id n = Inr (expected, used)
          \<and> m = slippage_bound expected bps)"
  unfolding built_every redeem_shares_main_def
  by (simp add: Let_def)

text \<open>
  C3, as the spec states it: the bound is the floor of \<open>expected * (10000 - bps) / 10000\<close>,
  it never exceeds \<open>expected\<close>, and it equals \<open>expected\<close> exactly when \<open>bps = 0\<close>. The
  last part fails for an expected amount of 0: the bound on nothing is 0 whatever the
  tolerance, here the 100 basis points of the scripts.
\<close>

theorem C3_bound_equal_with_tolerance:
  "slippage_bound 0 SLIPPAGE_BPS = 0 \<and> SLIPPAGE_BPS \<noteq> 0"
  by (simp add: slippage_bound_def SLIPPAGE_BPS_def)

text \<open>
  C3, amended: for a non-negative expected amount and a non-negative tolerance the bound is
  the floor of \<open>expected * (10000 - bps) / 10000\<close>, it is at most \<open>expected\<close>, it equals
  \<open>expected\<close> when \<open>bps = 0\<close>, and for a positive expected amount it equals \<open>expected\<close>
  only when \<open>bps = 0\<close>.
\<close>

theorem C3_slippage_bound:
  "0 \<le> expected \<Longrightarrow> 0 \<le> bps \<Longrightarrow>
     slippage_bound expected bps = \<lfloor>(of_int (expected * (10000 - bps)) :: real) / 10000\<rfloor>
     \<and> slippage_bound expected bps \<le> expected
     \<and> (bps = 0 \<longrightarrow> slippage_bound expected bps = expected)
     \<and> (0 < expected \<longrightarrow> (slippage_bound expected bps = expected \<longleftrightarrow> bps = 0))"
  using slippage_bound_floor slippage_bound_le slippage_bound_zero_bps slippage_bound_eq_iff
  by blast

theorem C3_slippage_bound_witness:
  "slippage_bound 1000 100 \<le> 1000 \<and> slippage_bound 1000 100 \<noteq> 1000
   \<and> slippage_bound 1000 0 = 1000"
  using C3_slippage_bound [of 1000 100] C3_slippage_bound [of 1000 0]
  by simp

section \<open>Redeeming shares\<close>

lemma redeem_zero_shares:
  "from_key w = Inr account \<Longrightarrow> getShares w c account term_id curve_id = Inr 0 \<Longrightarrow>
   redeem_shares_main w c term_id curve_id req bps
     = ([Read (rd_getShares account term_id curve_id), Print ''No shares to redeem''],
        Returned ())"
  by (simp add: redeem_shares_main_def run_defs Let_def)

lemma redeem_clamped:
  "\<forall>t \<in> set (built (fst (redeem_shares_main w c term_id curve_id req bps))).
     \<exists>account current m. from_key w = Inr account
       \<and> getShares w c account term_id curve_id = Inr current
       \<and> tx_data t = redeem account term_id curve_id (min req current) m
       \<and> min req current \<le> current"
  unfolding built_every redeem_shares_main_def
  by (simp add: Let_def)

lemma redeem_submitted_clamped:
  "\<forall>t \<in> set (submitted (fst (redeem_shares_main w c term_id curve_id req bps))).
     \<exists>account current m. from_key w = Inr account
       \<and> getShares w c account term_id curve_id = Inr current
       \<and> tx_data t = redeem account term_id curve_id (min req current) m
       \<and> min req current \<le> current"
  unfolding submitted_every redeem_shares_main_def
  by (simp add: Let_def)

text \<open>
  C4: every redeem transaction the script builds or submits asks for
  \<open>min shares_requested current_shares\<close> shares, which is at most the balance read from the
  ledger; and when that balance is 0 the run is the balance read and the report, nothing
  else: no preview, no transaction.
\<close>

theorem C4_redeem_clamps:
  "(\<forall>t \<in> set (built (fst (redeem_shares_main w c term_id curve_id req bps)))
         \<union> set (submitted (fst (redeem_shares_main w c term_id curve_id req bps))).
      \<exists>account current m. from_key w = Inr account
        \<and> getShares w c account term_id curve_id = Inr current
        \<and> tx_data t = redeem account term_id curve_id (min req current) m
        \<and> min req current \<le> current)
   \<and> (from_key w = Inr account' \<and> getShares w c account' term_id curve_id = Inr 0 \<longrightarrow>
       redeem_shares_main w c term_id curve_id req bps
         = ([Read (rd_getShares account' term_id curve_id), Print ''No shares to redeem''],
            Returned ()))"
  using redeem_clamped [of w c term_id curve_id req bps]
    redeem_submitted_clamped [of w c term_id curve_id req bps]
    redeem_zero_shares [of w account' c term_id curve_id req bps]
  unfolding ball_Un by blast

theorem C4_redeem_clamps_witness:
  "map tx_data (built (fst (redeem_shares_main ledger0 0 TERM_ID CURVE_ID (ether 5)
        SLIPPAGE_BPS)))
     = [redeem alice TERM_ID CURVE_ID (ether 3) 2970000000000000000]
   \<and> (\<exists>current. getShares ledger0 0 alice TERM_ID CURVE_ID = Inr current
         \<and> min (ether 5) current = ether 3)
   \<and> redeem_shares_main ledger_no_shares 0 TERM_ID CURVE_ID
        (ether 5) SLIPPAGE_BPS
     = ([Read (rd_getShares alice TERM_ID CURVE_ID), Print ''No shares to redeem''],
        Returned ())"
proof -
  let ?t = "\<lparr>tx_to = MULTIVAULT_ADDRESS,
             tx_data = redeem alice TERM_ID CURVE_ID (ether 3) 2970000000000000000,
             tx_from = alice, tx_nonce = 0, tx_gas = 200000, tx_gasPrice = 1,
             tx_value = 0\<rparr>"
  have run: "built (fst (redeem_shares_main ledger0 0 TERM_ID CURVE_ID (ether 5)
        SLIPPAGE_BPS)) = [?t]"
    by (simp add: main_defs run_defs ledger_defs config_defs slippage_bound_def Let_def)
  then have mem: "?t \<in> set (built (fst (redeem_shares_main ledger0 0 TERM_ID CURVE_ID
        (ether 5) SLIPPAGE_BPS)))
      \<union> set (submitted (fst (redeem_shares_main ledger0 0 TERM_ID CURVE_ID (ether 5)
        SLIPPAGE_BPS)))"
    by simp
  with C4_redeem_clamps [of ledger0 0 TERM_ID CURVE_ID "ether 5" SLIPPAGE_BPS]
  obtain account current m where
    "from_key ledger0 = Inr account"
    "getShares ledger0 0 account TERM_ID CURVE_ID = Inr current"
    "tx_data ?t = redeem account TERM_ID CURVE_ID (min (ether 5) current) m"
    by blast
  then have clamp: "\<exists>current. getShares ledger0 0 alice TERM_ID CURVE_ID = Inr current
         \<and> min (ether 5) current = ether 3"
    by (auto simp: ledger_defs)
  have "from_key ledger_no_shares = Inr alice
      \<and> getShares ledger_no_shares 0 alice TERM_ID CURVE_ID = Inr 0"
    by (simp add: ledger_defs)
  with C4_redeem_clamps [of ledger_no_shares 0 TERM_ID CURVE_ID
      "ether 5" SLIPPAGE_BPS alice]
  have "redeem_shares_main ledger_no_shares 0 TERM_ID CURVE_ID
        (ether 5) SLIPPAGE_BPS
     = ([Read (rd_getShares alice TERM_ID CURVE_ID), Print ''No shares to redeem''],
        Returned ())"
    by blast
  with clamp show ?thesis unfolding run by simp
qed

section \<open>Creating a triple: referenced atoms\<close>

lemma triple_subject_missing:
  "from_key w = Inr account \<Longrightarrow> isTermCreated w c s = Inr False \<Longrightarrow>
   create_triple_main w c s p ob amount
     = ([Read (rd_isTermCreated s)],
        Raised (Exception (''Atom '' @ hex s @ '' does not exist'')))"
  by (simp add: create_triple_main_def run_defs Let_def)

lemma triple_predicate_missing:
  "from_key w = Inr account \<Longrightarrow> isTermCreated w c s = Inr True \<Longrightarrow>
   isTermCreated w c p = Inr False \<Longrightarrow>
   create_triple_main w c s p ob amount
     = ([Read (rd_isTermCreated s), Read (rd_isTermCreated p)],
        Raised (Exception (''Atom '' @ hex p @ '' does not exist'')))"
  by (simp add: create_triple_main_def run_defs Let_def)

lemma triple_object_missing:
  "from_key w = Inr account \<Longrightarrow> isTermCreated w c s = Inr True \<Longrightarrow>
   isTermCreated w c p = Inr True \<Longrightarrow> isTermCreated w c ob = Inr False \<Longrightarrow>
   create_triple_main w c s p ob amount
     = ([Read (rd_isTermCreated s), Read (rd_isTermCreated p), Read (rd_isTermCreated ob)],
        Raised (Exception (''Atom '' @ hex ob @ '' does not exist'')))"
  by (simp add: create_triple_main_def run_defs Let_def)

lemma triple_checks_first:
  "\<forall>a \<in> set (fst (create_triple_main w c s p ob amount)).
     (a = Read (rd_isTermCreated s) \<or> a = Read (rd_isTermCreated p)
        \<or> a = Read (rd_isTermCreated ob))
     \<or> (isTermCreated w c s = Inr True \<and> isTermCreated w c p = Inr True
          \<and> isTermCreated w c ob = Inr True)"
  unfolding set_every create_triple_main_def
  by (simp add: Let_def)

text \<open>
  C5: the script reads \<^verbatim>\<open>isTermCreated\<close> for the subject, the predicate and the object, in
  this order, and raises at the first one that does not exist, with a message that names
  it (\<^verbatim>\<open>Atom <hex id> does not exist\<close>); the run then consists of these reads alone.
  Whatever else a run does (deriving the triple id, building, signing or submitting a
  transaction) it does only when all three were reported to exist. The exception is a
  plain \<^verbatim>\<open>Exception\<close>, the only class the scripts raise; the spec files it under
  \<^verbatim>\<open>ValidationError\<close>.
\<close>

theorem C5_create_triple_fails_fast:
  "(from_key w = Inr account \<and> isTermCreated w c s = Inr False \<longrightarrow>
      create_triple_main w c s p ob amount
        = ([Read (rd_isTermCreated s)],
           Raised (Exception (''Atom '' @ hex s @ '' does not exist''))))
   \<and> (from_key w = Inr account \<and> isTermCreated w c s = Inr True
        \<and> isTermCreated w c p = Inr False \<longrightarrow>
      create_triple_main w c s p ob amount
        = ([Read (rd_isTermCreated s), Read (rd_isTermCreated p)],
           Raised (Exception (''Atom '' @ hex p @ '' does not exist''))))
   \<and> (from_key w = Inr account \<and> isTermCreated w c s = Inr True
        \<and> isTermCreated w c p = Inr True \<and> isTermCreated w c ob = Inr False \<longrightarrow>
      create_triple_main w c s p ob amount
        = ([Read (rd_isTermCreated s), Read (rd_isTermCreated p),
            Read (rd_isTermCreated ob)],
           Raised (Exception (''Atom '' @ hex ob @ '' does not exist''))))
   \<and> (\<forall>a \<in> set (fst (create_triple_main w c s p ob amount)).
        (a = Read (rd_isTermCreated s) \<or> a = Read (rd_isTermCreated p)
           \<or> a = Read (rd_isTermCreated ob))
        \<or> (isTermCreated w c s = Inr True \<and> isTermCreated w c p = Inr True
             \<and> isTermCreated w c ob = Inr True))"
  using triple_subject_missing [of w account c s p ob amount]
    triple_predicate_missing [of w account c s p ob amount]
    triple_object_missing [of w account c s p ob amount]
    triple_checks_first [of w c s p ob amount]
  by blast

theorem C5_create_triple_fails_fast_witness:
  "create_triple_main ledger_no_atoms 0
       SUBJECT_ID PREDICATE_ID OBJECT_ID (ether 20)
     = ([Read (rd_isTermCreated SUBJECT_ID)],
        Raised (Exception
          ''Atom 0000000000000000000000000000000000000000000000000000000000000001 does not exist''))
   \<and> create_triple_main ledger_subject_only 0
       SUBJECT_ID PREDICATE_ID OBJECT_ID (ether 20)
     = ([Read (rd_isTermCreated SUBJECT_ID), Read (rd_isTermCreated PREDICATE_ID)],
        Raised (Exception
          ''Atom 0000000000000000000000000000000000000000000000000000000000000002 does not exist''))
   \<and> create_triple_main
       ledger_no_object 0
       SUBJECT_ID PREDICATE_ID OBJECT_ID (ether 20)
     = ([Read (rd_isTermCreated SUBJECT_ID), Read (rd_isTermCreated PREDICATE_ID),
         Read (rd_isTermCreated OBJECT_ID)],
        Raised (Exception
          ''Atom 0000000000000000000000000000000000000000000000000000000000000003 does not exist''))
   \<and> isTermCreated ledger0 0 SUBJECT_ID = Inr True
   \<and> isTermCreated ledger0 0 PREDICATE_ID = Inr True
   \<and> isTermCreated ledger0 0 OBJECT_ID = Inr True"
proof -
  have hex1: "hex SUBJECT_ID
      = ''0000000000000000000000000000000000000000000000000000000000000001''"
    and hex2: "hex PREDICATE_ID
      = ''0000000000000000000000000000000000000000000000000000000000000002''"
    and hex3: "hex OBJECT_ID
      = ''0000000000000000000000000000000000000000000000000000000000000003''"
    by code_simp+
  have ne: "PREDICATE_ID \<noteq> SUBJECT_ID" "OBJECT_ID \<noteq> SUBJECT_ID" "OBJECT_ID \<noteq> PREDICATE_ID"
    by code_simp+
  have a: "create_triple_main ledger_no_atoms 0
       SUBJECT_ID PREDICATE_ID OBJECT_ID (ether 20)
     = ([Read (rd_isTermCreated SUBJECT_ID)],
        Raised (Exception (''Atom '' @ hex SUBJECT_ID @ '' does not exist'')))"
    using C5_create_triple_fails_fast [of ledger_no_atoms
        alice 0 SUBJECT_ID PREDICATE_ID OBJECT_ID "ether 20"]
    by (simp add: ledger_defs)
  have b: "create_triple_main ledger_subject_only 0
       SUBJECT_ID PREDICATE_ID OBJECT_ID (ether 20)
     = ([Read (rd_isTermCreated SUBJECT_ID), Read (rd_isTermCreated PREDICATE_ID)],
        Raised (Exception (''Atom '' @ hex PREDICATE_ID @ '' does not exist'')))"
    using C5_create_triple_fails_fast
        [of ledger_subject_only
        alice 0 SUBJECT_ID PREDICATE_ID OBJECT_ID "ether 20"] ne
    by (simp add: ledger_defs)
  have c: "create_triple_main
       ledger_no_object 0
       SUBJECT_ID PREDICATE_ID OBJECT_ID (ether 20)
     = ([Read (rd_isTermCreated SUBJECT_ID), Read (rd_isTermCreated PREDICATE_ID),
         Read (rd_isTermCreated OBJECT_ID)],
        Raised (Exception (''Atom '' @ hex OBJECT_ID @ '' does not exist'')))"
    using C5_create_triple_fails_fast
        [of ledger_no_object
        alice 0 SUBJECT_ID PREDICATE_ID OBJECT_ID "ether 20"] ne
    by (simp add: ledger_defs)
  have d: "isTermCreated ledger0 0 SUBJECT_ID = Inr True
      \<and> isTermCreated ledger0 0 PREDICATE_ID = Inr True
      \<and> isTermCreated ledger0 0 OBJECT_ID = Inr True"
    by (simp add: ledger_defs)
  from a b c d show ?thesis unfolding hex1 hex2 hex3 by simp
qed

section \<open>Creating what already exists\<close>

lemma create_atom_already_exists:
  "is_connected w c \<Longrightarrow> from_key w = Inr account \<Longrightarrow> get_balance w c account = Inr eth \<Longrightarrow>
   balanceOf w c account = Inr bal \<Longrightarrow> getAtomCost w c = Inr cost \<Longrightarrow> amount + cost \<le> bal \<Longrightarrow>
   calculateAtomId w c atom_data = Inr i \<Longrightarrow> isTermCreated w c i = Inr True \<Longrightarrow>
   create_atom_main w c atom_data amount
     = ([Read rd_is_connected, Read (rd_get_balance account), Read (rd_balanceOf account),
         Read rd_getAtomCost, Read (rd_calculateAtomId atom_data), Read (rd_isTermCreated i),
         Print ''Warning: This atom already exists!''],
        Returned ())"
  by (simp add: create_atom_main_def run_defs Let_def)

lemma create_triple_already_exists:
  "from_key w = Inr account \<Longrightarrow> isTermCreated w c s = Inr True \<Longrightarrow>
   isTermCreated w c p = Inr True \<Longrightarrow> isTermCreated w c ob = Inr True \<Longrightarrow>
   calculateTripleId w c s p ob = Inr i \<Longrightarrow> isTermCreated w c i = Inr True \<Longrightarrow>
   create_triple_main w c s p ob amount
     = ([Read (rd_isTermCreated s), Read (rd_isTermCreated p), Read (rd_isTermCreated ob),
         Read (rd_calculateTripleId s p ob), Read (rd_isTermCreated i),
         Print ''Triple already exists''],
        Returned ())"
  by (simp add: create_triple_main_def run_defs Let_def)

lemma existing_atom_no_transaction:
  assumes "calculateAtomId w c atom_data = Inr i" and "isTermCreated w c i = Inr True"
  shows "built (fst (create_atom_main w c atom_data amount)) = []
     \<and> submitted (fst (create_atom_main w c atom_data amount)) = []"
  using assms
  unfolding built_empty_every submitted_empty_every create_atom_main_def
  by (simp add: Let_def)

lemma existing_triple_no_transaction:
  assumes "calculateTripleId w c s p ob = Inr i" and "isTermCreated w c i = Inr True"
  shows "built (fst (create_triple_main w c s p ob amount)) = []
     \<and> submitted (fst (create_triple_main w c s p ob amount)) = []"
  using assms
  unfolding built_empty_every submitted_empty_every create_triple_main_def
  by (simp add: Let_def)

lemma create_atom_insufficient_balance:
  "is_connected w c \<Longrightarrow> from_key w = Inr account \<Longrightarrow> get_balance w c account = Inr eth \<Longrightarrow>
   balanceOf w c account = Inr bal \<Longrightarrow> getAtomCost w c = Inr cost \<Longrightarrow> bal < amount + cost \<Longrightarrow>
   create_atom_main w c atom_data amount
     = ([Read rd_is_connected, Read (rd_get_balance account), Read (rd_balanceOf account),
         Read rd_getAtomCost],
        Raised (Exception (''Insufficient WTRUST balance. Need ''
                  @ from_wei w (amount + cost) @ '' but have '' @ from_wei w bal)))"
  by (simp add: create_atom_main_def run_defs Let_def)

text \<open>
  C6, as the spec states it: whenever the derived id is already created, creation is a
  no-op that reports it and returns without raising. \<^verbatim>\<open>create-atom.py\<close> compares the WTRUST
  balance with \<open>deposit + atomCost\<close> before it derives the id. On a ledger where the atom
  exists, the cost is 0.1 tokens and the account holds 5 tokens, a run with a deposit of 10
  tokens raises \<^verbatim>\<open>Insufficient WTRUST balance\<close> after the cost read; the existence of
  the atom is never read, nothing is reported as existing, and the process ends with
  status 1.
\<close>

theorem C6_existing_atom_low_balance_raises:
  "calculateAtomId ledger_poor 0 ATOM_DATA = Inr (''atom:'' @ ATOM_DATA)
   \<and> isTermCreated ledger_poor 0 (''atom:'' @ ATOM_DATA) = Inr True
   \<and> create_atom_main ledger_poor 0 ATOM_DATA (ether 10)
     = ([Read rd_is_connected, Read (rd_get_balance alice), Read (rd_balanceOf alice),
         Read rd_getAtomCost],
        Raised (Exception ''Insufficient WTRUST balance. Need + but have +''))
   \<and> snd (create_atom_script ledger_poor 0 ATOM_DATA (ether 10)) = 1"
  by (simp add: create_atom_script_def run_script_def create_atom_main_def run_defs
      ledger_defs ether_def Let_def)

text \<open>
  C6, amended: when the existence read of the derived id is reached and answers true, atom
  creation and triple creation print that the term already exists and return, without
  raising and without a transaction. Triple creation reaches the read when the three
  referenced atoms exist; atom creation reaches it when the connection is up and the WTRUST
  balance covers \<open>deposit + atomCost\<close>. With a lower balance atom creation raises
  \<^verbatim>\<open>Insufficient WTRUST balance\<close> before the read, whether the atom exists or not. Whenever
  the derived id exists, no run builds or submits a transaction, the read reached or not.
\<close>

theorem C6_already_exists_is_noop:
  "(is_connected w c \<and> from_key w = Inr account \<and> get_balance w c account = Inr eth
      \<and> balanceOf w c account = Inr bal \<and> getAtomCost w c = Inr cost \<and> amount + cost \<le> bal
      \<and> calculateAtomId w c atom_data = Inr i \<and> isTermCreated w c i = Inr True \<longrightarrow>
    create_atom_main w c atom_data amount
      = ([Read rd_is_connected, Read (rd_get_balance account), Read (rd_balanceOf account),
          Read rd_getAtomCost, Read (rd_calculateAtomId atom_data), Read (rd_isTermCreated i),
          Print ''Warning: This atom already exists!''],
         Returned ()))
   \<and> (calculateAtomId w c atom_data = Inr i \<and> isTermCreated w c i = Inr True \<longrightarrow>
    built (fst (create_atom_main w c atom_data amount)) = []
      \<and> submitted (fst (create_atom_main w c atom_data amount)) = [])
   \<and> (from_key w = Inr account \<and> isTermCreated w c s = Inr True
      \<and> isTermCreated w c p = Inr True \<and> isTermCreated w c ob = Inr True
      \<and> calculateTripleId w c s p ob = Inr j \<and> isTermCreated w c j = Inr True \<longrightarrow>
    create_triple_main w c s p ob amount'
      = ([Read (rd_isTermCreated s), Read (rd_isTermCreated p), Read (rd_isTermCreated ob),
          Read (rd_calculateTripleId s p ob), Read (rd_isTermCreated j),
          Print ''Triple already exists''],
         Returned ()))
   \<and> (calculateTripleId w c s p ob = Inr j \<and> isTermCreated w c j = Inr True \<longrightarrow>
    built (fst (create_triple_main w c s p ob amount')) = []
      \<and> submitted (fst (create_triple_main w c s p ob amount')) = [])
   \<and> (is_connected w c \<and> from_key w = Inr account \<and> get_balance w c account = Inr eth
      \<and> balanceOf w c account = Inr bal \<and> getAtomCost w c = Inr cost \<and> bal < amount + cost \<longrightarrow>
    create_atom_main w c atom_data amount
      = ([Read rd_is_connected, Read (rd_get_balance account), Read (rd_balanceOf account),
          Read rd_getAtomCost],
         Raised (Exception (''Insufficient WTRUST balance. Need ''
                   @ from_wei w (amount + cost) @ '' but have '' @ from_wei w bal))))"
  using create_atom_already_exists [of w c account eth bal cost amount atom_data i]
    existing_atom_no_transaction [of w c atom_data i amount]
    create_triple_already_exists [of w account c s p ob j amount']
    existing_triple_no_transaction [of w c s p ob j amount']
    create_atom_insufficient_balance [of w c account eth bal cost amount atom_data]
  by blast

theorem C6_already_exists_is_noop_witness:
  "create_atom_main ledger_all_created 0 ATOM_DATA (ether 10)
     = ([Read rd_is_connected, Read (rd_get_balance alice), Read (rd_balanceOf alice),
         Read rd_getAtomCost, Read (rd_calculateAtomId ATOM_DATA),
         Read (rd_isTermCreated (''atom:'' @ ATOM_DATA)),
         Print ''Warning: This atom already exists!''],
        Returned ())
   \<and> create_triple_main ledger_all_created 0
       SUBJECT_ID PREDICATE_ID OBJECT_ID (ether 20)
     = ([Read (rd_isTermCreated SUBJECT_ID), Read (rd_isTermCreated PREDICATE_ID),
         Read (rd_isTermCreated OBJECT_ID),
         Read (rd_calculateTripleId SUBJECT_ID PREDICATE_ID OBJECT_ID),
         Read (rd_isTermCreated (''triple:'' @ SUBJECT_ID @ PREDICATE_ID @ OBJECT_ID)),
         Print ''Triple already exists''],
        Returned ())
   \<and> built (fst (create_atom_main ledger_poor 0 ATOM_DATA (ether 10))) = []
   \<and> submitted (fst (create_atom_main ledger_poor 0 ATOM_DATA (ether 10))) = []
   \<and> create_atom_main ledger_poor 0 ATOM_DATA (ether 10)
     = ([Read rd_is_connected, Read (rd_get_balance alice), Read (rd_balanceOf alice),
         Read rd_getAtomCost],
        Raised (Exception (''Insufficient WTRUST balance. Need ''
                  @ from_wei ledger_poor (ether 10 + 100000000000000000)
                  @ '' but have '' @ from_wei ledger_poor (ether 5))))"
proof -
  let ?w = ledger_all_created
  have atom: "is_connected ?w 0 \<and> from_key ?w = Inr alice
      \<and> get_balance ?w 0 alice = Inr (ether 1) \<and> balanceOf ?w 0 alice = Inr (ether 100)
      \<and> getAtomCost ?w 0 = Inr 100000000000000000
      \<and> ether 10 + 100000000000000000 \<le> ether 100
      \<and> calculateAtomId ?w 0 ATOM_DATA = Inr (''atom:'' @ ATOM_DATA)
      \<and> isTermCreated ?w 0 (''atom:'' @ ATOM_DATA) = Inr True"
    by (simp add: ledger_defs ether_def)
  have triple: "from_key ?w = Inr alice \<and> isTermCreated ?w 0 SUBJECT_ID = Inr True
      \<and> isTermCreated ?w 0 PREDICATE_ID = Inr True \<and> isTermCreated ?w 0 OBJECT_ID = Inr True
      \<and> calculateTripleId ?w 0 SUBJECT_ID PREDICATE_ID OBJECT_ID
          = Inr (''triple:'' @ SUBJECT_ID @ PREDICATE_ID @ OBJECT_ID)
      \<and> isTermCreated ?w 0 (''triple:'' @ SUBJECT_ID @ PREDICATE_ID @ OBJECT_ID) = Inr True"
    by (simp add: ledger_defs)
  have exists: "calculateAtomId ledger_poor 0 ATOM_DATA = Inr (''atom:'' @ ATOM_DATA)
      \<and> isTermCreated ledger_poor 0 (''atom:'' @ ATOM_DATA) = Inr True"
    by (simp add: ledger_defs)
  have poor: "is_connected ledger_poor 0 \<and> from_key ledger_poor = Inr alice
      \<and> get_balance ledger_poor 0 alice = Inr (ether 1)
      \<and> balanceOf ledger_poor 0 alice = Inr (ether 5)
      \<and> getAtomCost ledger_poor 0 = Inr 100000000000000000
      \<and> ether 5 < ether 10 + 100000000000000000"
    by (simp add: ledger_defs ether_def)
  from C6_already_exists_is_noop [of ?w 0 alice "ether 1" "ether 100" 100000000000000000
      "ether 10" ATOM_DATA, THEN conjunct1, THEN mp, OF atom]
  have a: "create_atom_main ledger_all_created 0 ATOM_DATA (ether 10)
     = ([Read rd_is_connected, Read (rd_get_balance alice), Read (rd_balanceOf alice),
         Read rd_getAtomCost, Read (rd_calculateAtomId ATOM_DATA),
         Read (rd_isTermCreated (''atom:'' @ ATOM_DATA)),
         Print ''Warning: This atom already exists!''],
        Returned ())" .
  from C6_already_exists_is_noop [of ?w 0 alice, THEN conjunct2, THEN conjunct2,
      THEN conjunct1, THEN mp, OF triple]
  have b: "create_triple_main ledger_all_created 0
       SUBJECT_ID PREDICATE_ID OBJECT_ID (ether 20)
     = ([Read (rd_isTermCreated SUBJECT_ID), Read (rd_isTermCreated PREDICATE_ID),
         Read (rd_isTermCreated OBJECT_ID),
         Read (rd_calculateTripleId SUBJECT_ID PREDICATE_ID OBJECT_ID),
         Read (rd_isTermCreated (''triple:'' @ SUBJECT_ID @ PREDICATE_ID @ OBJECT_ID)),
         Print ''Triple already exists''],
        Returned ())" .
  from C6_already_exists_is_noop [of ledger_poor 0, THEN conjunct2, THEN conjunct1,
      THEN mp, OF exists]
  have c: "built (fst (create_atom_main ledger_poor 0 ATOM_DATA (ether 10))) = []
      \<and> submitted (fst (create_atom_main ledger_poor 0 ATOM_DATA (ether 10))) = []" .
  from C6_already_exists_is_noop [of ledger_poor 0 alice "ether 1" "ether 5"
      100000000000000000 "ether 10" ATOM_DATA, THEN conjunct2, THEN conjunct2,
      THEN conjunct2, THEN conjunct2, THEN mp, OF poor]
  have d: "create_atom_main ledger_poor 0 ATOM_DATA (ether 10)
     = ([Read rd_is_connected, Read (rd_get_balance alice), Read (rd_balanceOf alice),
         Read rd_getAtomCost],
        Raised (Exception (''Insufficient WTRUST balance. Need ''
                  @ from_wei ledger_poor (ether 10 + 100000000000000000)
                  @ '' but have '' @ from_wei ledger_poor (ether 5))))" .
  from a b c d show ?thesis by blast
qed

section \<open>Claiming rewards\<close>

lemma claim_zero_bonded:
  "from_key w = Inr account \<Longrightarrow> currentEpoch w c = Inr e1 \<Longrightarrow> previousEpoch w c = Inr e0 \<Longrightarrow>
   getUserInfo w c account = Inr info \<Longrightarrow> bondedBalance info = 0 \<Longrightarrow>
   claim_rewards_main w c
     = ([Read rd_currentEpoch, Read rd_previousEpoch, Read (rd_getUserInfo account),
         Print ''No bonded balance. Lock TRUST tokens first to earn rewards.''],
        Returned ())"
  by (simp add: claim_rewards_main_def run_defs Let_def)

lemma claim_zero_claimable:
  "from_key w = Inr account \<Longrightarrow> currentEpoch w c = Inr e1 \<Longrightarrow> previousEpoch w c = Inr e0 \<Longrightarrow>
   getUserInfo w c account = Inr info \<Longrightarrow> bondedBalance info \<noteq> 0 \<Longrightarrow>
   getUserCurrentClaimableRewards w c account = Inr 0 \<Longrightarrow>
   claim_rewards_main w c
     = ([Read rd_currentEpoch, Read rd_previousEpoch, Read (rd_getUserInfo account),
         Read (rd_getUserCurrentClaimableRewards account),
         Print ''No rewards to claim at this time''],
        Returned ())"
  by (simp add: claim_rewards_main_def run_defs Let_def)

lemma claim_built_nonzero:
  "\<forall>t \<in> set (built (fst (claim_rewards_main w c))).
     \<exists>account info claimable. from_key w = Inr account
       \<and> getUserInfo w c account = Inr info \<and> bondedBalance info \<noteq> 0
       \<and> getUserCurrentClaimableRewards w c account = Inr claimable \<and> claimable \<noteq> 0"
  unfolding built_every claim_rewards_main_def
  by (simp add: Let_def)

lemma claim_submitted_nonzero:
  "\<forall>t \<in> set (submitted (fst (claim_rewards_main w c))).
     \<exists>account info claimable. from_key w = Inr account
       \<and> getUserInfo w c account = Inr info \<and> bondedBalance info \<noteq> 0
       \<and> getUserCurrentClaimableRewards w c account = Inr claimable \<and> claimable \<noteq> 0"
  unfolding submitted_every claim_rewards_main_def
  by (simp add: Let_def)

lemma claim_submitted:
  assumes "from_key w = Inr account" "currentEpoch w c = Inr e1" "previousEpoch w c = Inr e0"
    "getUserInfo w c account = Inr info" "bondedBalance info \<noteq> 0"
    "getUserCurrentClaimableRewards w c account = Inr claimable" "claimable \<noteq> 0"
    "getUserApy w c account = Inr apy" "get_transaction_count w c account = Inr nonce"
    "gas_price w c = Inr price"
  shows "map tx_data (submitted (fst (claim_rewards_main w c))) = [claimRewards account]"
proof (cases "send_raw_transaction w c
    \<lparr>tx_to = to_checksum_address w TRUST_BONDING_ADDRESS, tx_data = claimRewards account,
     tx_from = account, tx_nonce = nonce, tx_gas = 150000, tx_gasPrice = price,
     tx_value = 0\<rparr>")
  case (Inl e)
  with assms show ?thesis
    by (cases apy) (simp add: claim_rewards_main_def run_defs Let_def)
next
  case (Inr hc)
  obtain h c' where hc: "hc = (h, c')" by (cases hc)
  show ?thesis
  proof (cases "wait_for_transaction_receipt w c' h")
    case (Inl e)
    with assms Inr hc show ?thesis
      by (cases apy) (simp add: claim_rewards_main_def run_defs Let_def)
  next
    case (Inr rc)
    with assms \<open>send_raw_transaction w c _ = Inr hc\<close> hc show ?thesis
      by (cases apy, cases rc) (simp add: claim_rewards_main_def run_defs Let_def)
  qed
qed

text \<open>
  C7: with a bonded balance of 0 the run is the two epoch reads, the \<^verbatim>\<open>getUserInfo\<close> read
  and the report; with a bonded balance and no claimable rewards it is these reads, the
  \<^verbatim>\<open>getUserCurrentClaimableRewards\<close> read and the report. Both return without a
  transaction. A transaction is built or submitted only when both amounts are not 0, and
  when they are not (and the reads that prepare the transaction answer) exactly the claim
  is submitted. The short circuit is a printed warning and a normal return; the spec files
  the condition under \<^verbatim>\<open>ValidationError\<close>.
\<close>

theorem C7_claim_short_circuits:
  "(from_key w = Inr account \<and> currentEpoch w c = Inr e1 \<and> previousEpoch w c = Inr e0
      \<and> getUserInfo w c account = Inr info \<and> bondedBalance info = 0 \<longrightarrow>
    claim_rewards_main w c
      = ([Read rd_currentEpoch, Read rd_previousEpoch, Read (rd_getUserInfo account),
          Print ''No bonded balance. Lock TRUST tokens first to earn rewards.''],
         Returned ()))
   \<and> (from_key w = Inr account \<and> currentEpoch w c = Inr e1 \<and> previousEpoch w c = Inr e0
      \<and> getUserInfo w c account = Inr info \<and> bondedBalance info \<noteq> 0
      \<and> getUserCurrentClaimableRewards w c account = Inr 0 \<longrightarrow>
    claim_rewards_main w c
      = ([Read rd_currentEpoch, Read rd_previousEpoch, Read (rd_getUserInfo account),
          Read (rd_getUserCurrentClaimableRewards account),
          Print ''No rewards to claim at this time''],
         Returned ()))
   \<and> (\<forall>t \<in> set (built (fst (claim_rewards_main w c)))
           \<union> set (submitted (fst (claim_rewards_main w c))).
        \<exists>account info claimable. from_key w = Inr account
          \<and> getUserInfo w c account = Inr info \<and> bondedBalance info \<noteq> 0
          \<and> getUserCurrentClaimableRewards w c account = Inr claimable \<and> claimable \<noteq> 0)
   \<and> (from_key w = Inr account \<and> currentEpoch w c = Inr e1 \<and> previousEpoch w c = Inr e0
      \<and> getUserInfo w c account = Inr info \<and> bondedBalance info \<noteq> 0
      \<and> getUserCurrentClaimableRewards w c account = Inr claimable \<and> claimable \<noteq> 0
      \<and> getUserApy w c account = Inr apy \<and> get_transaction_count w c account = Inr nonce
      \<and> gas_price w c = Inr price \<longrightarrow>
    map tx_data (submitted (fst (claim_rewards_main w c))) = [claimRewards account])"
  using claim_zero_bonded [of w account c e1 e0 info]
    claim_zero_claimable [of w account c e1 e0 info]
    claim_built_nonzero [of w c] claim_submitted_nonzero [of w c]
    claim_submitted [of w account c e1 e0 info claimable apy nonce price]
  unfolding ball_Un by blast

theorem C7_claim_short_circuits_witness:
  "claim_rewards_main
       ledger_no_bond 0
     = ([Read rd_currentEpoch, Read rd_previousEpoch, Read (rd_getUserInfo alice),
         Print ''No bonded balance. Lock TRUST tokens first to earn rewards.''],
        Returned ())
   \<and> claim_rewards_main ledger_no_rewards 0
     = ([Read rd_currentEpoch, Read rd_previousEpoch, Read (rd_getUserInfo alice),
         Read (rd_getUserCurrentClaimableRewards alice),
         Print ''No rewards to claim at this time''],
        Returned ())
   \<and> map tx_data (submitted (fst (claim_rewards_main ledger0 0))) = [claimRewards alice]"
proof -
  let ?i0 = "\<lparr>personalUtilization = 0, eligibleRewards = 0, maxRewards = 0,
               lockedAmount = 0, lockEnd = 0, bondedBalance = 0\<rparr>"
  let ?i7 = "\<lparr>personalUtilization = 1, eligibleRewards = 9, maxRewards = 10,
               lockedAmount = 7, lockEnd = 0, bondedBalance = 7\<rparr>"
  let ?w0 = ledger_no_bond
  let ?w1 = ledger_no_rewards
  have h0: "from_key ?w0 = Inr alice \<and> currentEpoch ?w0 0 = Inr 5 \<and> previousEpoch ?w0 0 = Inr 4
      \<and> getUserInfo ?w0 0 alice = Inr ?i0 \<and> bondedBalance ?i0 = 0"
    by (simp add: ledger_defs)
  have h1: "from_key ?w1 = Inr alice \<and> currentEpoch ?w1 0 = Inr 5 \<and> previousEpoch ?w1 0 = Inr 4
      \<and> getUserInfo ?w1 0 alice = Inr ?i7 \<and> bondedBalance ?i7 \<noteq> 0
      \<and> getUserCurrentClaimableRewards ?w1 0 alice = Inr 0"
    by (simp add: ledger_defs)
  have h2: "from_key ledger0 = Inr alice \<and> currentEpoch ledger0 0 = Inr 5
      \<and> previousEpoch ledger0 0 = Inr 4
      \<and> getUserInfo ledger0 0 alice = Inr ?i7 \<and> bondedBalance ?i7 \<noteq> 0
      \<and> getUserCurrentClaimableRewards ledger0 0 alice = Inr 9 \<and> (9::int) \<noteq> 0
      \<and> getUserApy ledger0 0 alice = Inr (500, 1000)
      \<and> get_transaction_count ledger0 0 alice = Inr 0 \<and> gas_price ledger0 0 = Inr 1"
    by (simp add: ledger_defs)
  from h0 C7_claim_short_circuits [of ?w0 alice 0 5 4 ?i0]
  have a: "claim_rewards_main ?w0 0
     = ([Read rd_currentEpoch, Read rd_previousEpoch, Read (rd_getUserInfo alice),
         Print ''No bonded balance. Lock TRUST tokens first to earn rewards.''],
        Returned ())"
    by blast
  from h1 C7_claim_short_circuits [of ?w1 alice 0 5 4 ?i7]
  have b: "claim_rewards_main ?w1 0
     = ([Read rd_currentEpoch, Read rd_previousEpoch, Read (rd_getUserInfo alice),
         Read (rd_getUserCurrentClaimableRewards alice),
         Print ''No rewards to claim at this time''],
        Returned ())"
    by blast
  from h2 C7_claim_short_circuits [of ledger0 alice 0 5 4 ?i7 9 "(500, 1000)" 0 1]
  have c: "map tx_data (submitted (fst (claim_rewards_main ledger0 0))) = [claimRewards alice]"
    by blast
  from a b c show ?thesis by blast
qed

lemma claim_recipient_built:
  "\<forall>t \<in> set (built (fst (claim_rewards_main w c))).
     \<exists>account. from_key w = Inr account \<and> tx_data t = claimRewards account
       \<and> tx_from t = account"
  unfolding built_every claim_rewards_main_def
  by (simp add: Let_def)

lemma claim_recipient_submitted:
  "\<forall>t \<in> set (submitted (fst (claim_rewards_main w c))).
     \<exists>account. from_key w = Inr account \<and> tx_data t = claimRewards account
       \<and> tx_from t = account"
  unfolding submitted_every claim_rewards_main_def
  by (simp add: Let_def)

text \<open>
  C9: every transaction \<^verbatim>\<open>claim-rewards.py\<close> builds or submits is a \<^verbatim>\<open>claimRewards\<close> call
  whose recipient is the address of the account derived from the private key, which is
  also the sender of the transaction.
\<close>

theorem C9_claim_recipient_is_sender:
  "\<forall>t \<in> set (built (fst (claim_rewards_main w c)))
         \<union> set (submitted (fst (claim_rewards_main w c))).
     \<exists>account. from_key w = Inr account \<and> tx_data t = claimRewards account
       \<and> tx_from t = account"
  using claim_recipient_built [of w c] claim_recipient_submitted [of w c]
  unfolding ball_Un by blast

theorem C9_claim_recipient_is_sender_witness:
  "submitted (fst (claim_rewards_main ledger0 0))
     = [\<lparr>tx_to = TRUST_BONDING_ADDRESS, tx_data = claimRewards alice, tx_from = alice,
         tx_nonce = 0, tx_gas = 150000, tx_gasPrice = 1, tx_value = 0\<rparr>]
   \<and> from_key ledger0 = Inr alice"
proof -
  let ?t = "\<lparr>tx_to = TRUST_BONDING_ADDRESS, tx_data = claimRewards alice, tx_from = alice,
         tx_nonce = 0, tx_gas = 150000, tx_gasPrice = 1, tx_value = 0\<rparr>"
  have run: "submitted (fst (claim_rewards_main ledger0 0)) = [?t]"
    by (simp add: claim_rewards_main_def run_defs ledger_defs Let_def)
  then have "?t \<in> set (built (fst (claim_rewards_main ledger0 0)))
                 \<union> set (submitted (fst (claim_rewards_main ledger0 0)))"
    by simp
  with C9_claim_recipient_is_sender [of ledger0 0]
  obtain account where "from_key ledger0 = Inr account" "tx_data ?t = claimRewards account"
    by blast
  then have "from_key ledger0 = Inr alice" by simp
  with run show ?thesis by simp
qed

section \<open>Exit status\<close>

lemma run_script_raised: "snd (run_script handler r) = 1 \<longleftrightarrow> (\<exists>e. snd r = Raised e)"
proof (cases "snd r")
  case (Returned u)
  then show ?thesis by (simp add: run_script_def)
next
  case (Raised e)
  then show ?thesis by (cases e) (simp add: run_script_def)
qed

lemma run_script_returned: "snd (run_script handler r) = 0 \<longleftrightarrow> snd r = Returned ()"
proof (cases "snd r")
  case (Returned u)
  then show ?thesis by (simp add: run_script_def)
next
  case (Raised e)
  then show ?thesis by (cases e) (simp add: run_script_def)
qed

lemma run_script_of_returned: "run_script handler (as, Returned ()) = (as, 0)"
  by (simp add: run_script_def)

text \<open>
  C10: each of the five scripts ends with status 1 exactly when its \<^verbatim>\<open>main\<close> raised, and
  with status 0 exactly when it returned. The short circuits (the atom or the triple
  already exists, no shares to redeem, no bonded balance, no claimable rewards) end with
  status 0, and the process has built and submitted no transaction.
\<close>

theorem C10_exit_status:
  "(snd (create_atom_script w c atom_data amount) = 1
      \<longleftrightarrow> (\<exists>e. snd (create_atom_main w c atom_data amount) = Raised e))
   \<and> (snd (create_atom_script w c atom_data amount) = 0
      \<longleftrightarrow> snd (create_atom_main w c atom_data amount) = Returned ())
   \<and> (snd (create_triple_script w c s p ob amount) = 1
      \<longleftrightarrow> (\<exists>e. snd (create_triple_main w c s p ob amount) = Raised e))
   \<and> (snd (create_triple_script w c s p ob amount) = 0
      \<longleftrightarrow> snd (create_triple_main w c s p ob amount) = Returned ())
   \<and> (snd (deposit_vault_script w c term_id curve_id amount bps) = 1
      \<longleftrightarrow> (\<exists>e. snd (deposit_vault_main w c term_id curve_id amount bps) = Raised e))
   \<and> (snd (deposit_vault_script w c term_id curve_id amount bps) = 0
      \<longleftrightarrow> snd (deposit_vault_main w c term_id curve_id amount bps) = Returned ())
   \<and> (snd (redeem_shares_script w c term_id curve_id req bps) = 1
      \<longleftrightarrow> (\<exists>e. snd (redeem_shares_main w c term_id curve_id req bps) = Raised e))
   \<and> (snd (redeem_shares_script w c term_id curve_id req bps) = 0
      \<longleftrightarrow> snd (redeem_shares_main w c term_id curve_id req bps) = Returned ())
   \<and> (snd (claim_rewards_script w c) = 1 \<longleftrightarrow> (\<exists>e. snd (claim_rewards_main w c) = Raised e))
   \<and> (snd (claim_rewards_script w c) = 0 \<longleftrightarrow> snd (claim_rewards_main w c) = Returned ())
   \<and> (is_connected w c \<and> from_key w = Inr account \<and> get_balance w c account = Inr eth
        \<and> balanceOf w c account = Inr bal \<and> getAtomCost w c = Inr cost \<and> amount + cost \<le> bal
        \<and> calculateAtomId w c atom_data = Inr i \<and> isTermCreated w c i = Inr True \<longrightarrow>
      snd (create_atom_script w c atom_data amount) = 0
        \<and> built (fst (create_atom_script w c atom_data amount)) = []
        \<and> submitted (fst (create_atom_script w c atom_data amount)) = [])
   \<and> (from_key w = Inr account \<and> isTermCreated w c s = Inr True
        \<and> isTermCreated w c p = Inr True \<and> isTermCreated w c ob = Inr True
        \<and> calculateTripleId w c s p ob = Inr j \<and> isTermCreated w c j = Inr True \<longrightarrow>
      snd (create_triple_script w c s p ob amount) = 0
        \<and> built (fst (create_triple_script w c s p ob amount)) = []
        \<and> submitted (fst (create_triple_script w c s p ob amount)) = [])
   \<and> (from_key w = Inr account \<and> getShares w c account term_id curve_id = Inr 0 \<longrightarrow>
      snd (redeem_shares_script w c term_id curve_id req bps) = 0
        \<and> built (fst (redeem_shares_script w c term_id curve_id req bps)) = []
        \<and> submitted (fst (redeem_shares_script w c term_id curve_id req bps)) = [])
   \<and> (from_key w = Inr account \<and> currentEpoch w c = Inr e1 \<and> previousEpoch w c = Inr e0
        \<and> getUserInfo w c account = Inr info
        \<and> (bondedBalance info = 0 \<or> getUserCurrentClaimableRewards w c account = Inr 0) \<longrightarrow>
      snd (claim_rewards_script w c) = 0
        \<and> built (fst (claim_rewards_script w c)) = []
        \<and> submitted (fst (claim_rewards_script w c)) = [])"
proof -
  have atom: "snd (create_atom_script w c atom_data amount) = 0
        \<and> built (fst (create_atom_script w c atom_data amount)) = []
        \<and> submitted (fst (create_atom_script w c atom_data amount)) = []"
    if "is_connected w c" "from_key w = Inr account" "get_balance w c account = Inr eth"
      "balanceOf w c account = Inr bal" "getAtomCost w c = Inr cost" "amount + cost \<le> bal"
      "calculateAtomId w c atom_data = Inr i" "isTermCreated w c i = Inr True"
    unfolding create_atom_script_def create_atom_already_exists [OF that] run_script_of_returned
    by simp
  have triple: "snd (create_triple_script w c s p ob amount) = 0
        \<and> built (fst (create_triple_script w c s p ob amount)) = []
        \<and> submitted (fst (create_triple_script w c s p ob amount)) = []"
    if "from_key w = Inr account" "isTermCreated w c s = Inr True"
      "isTermCreated w c p = Inr True" "isTermCreated w c ob = Inr True"
      "calculateTripleId w c s p ob = Inr j" "isTermCreated w c j = Inr True"
    unfolding create_triple_script_def create_triple_already_exists [OF that]
      run_script_of_returned
    by simp
  have shares: "snd (redeem_shares_script w c term_id curve_id req bps) = 0
        \<and> built (fst (redeem_shares_script w c term_id curve_id req bps)) = []
        \<and> submitted (fst (redeem_shares_script w c term_id curve_id req bps)) = []"
    if "from_key w = Inr account" "getShares w c account term_id curve_id = Inr 0"
    unfolding redeem_shares_script_def redeem_zero_shares [OF that] run_script_of_returned
    by simp
  have claim: "snd (claim_rewards_script w c) = 0
        \<and> built (fst (claim_rewards_script w c)) = []
        \<and> submitted (fst (claim_rewards_script w c)) = []"
    if r: "from_key w = Inr account" "currentEpoch w c = Inr e1" "previousEpoch w c = Inr e0"
      "getUserInfo w c account = Inr info"
      and z: "bondedBalance info = 0 \<or> getUserCurrentClaimableRewards w c account = Inr 0"
  proof (cases "bondedBalance info = 0")
    case True
    show ?thesis
      unfolding claim_rewards_script_def claim_zero_bonded [OF r True] run_script_of_returned
      by simp
  next
    case False
    with z have "getUserCurrentClaimableRewards w c account = Inr 0" by simp
    from claim_zero_claimable [OF r False this] show ?thesis
      unfolding claim_rewards_script_def by (simp add: run_script_of_returned)
  qed
  show ?thesis
    unfolding create_atom_script_def [symmetric]
    using atom triple shares claim
    by (simp add: run_script_raised run_script_returned create_atom_script_def
        create_triple_script_def deposit_vault_script_def redeem_shares_script_def
        claim_rewards_script_def del: snd_conv fst_conv)
qed

theorem C10_exit_status_witness:
  "snd (create_atom_script ledger_down 0 ATOM_DATA (ether 10)) = 1
   \<and> snd (create_atom_script ledger_all_created 0 ATOM_DATA
        (ether 10)) = 0
   \<and> snd (create_triple_script ledger_all_created 0
        SUBJECT_ID PREDICATE_ID OBJECT_ID (ether 20)) = 0
   \<and> snd (redeem_shares_script ledger_no_shares 0 TERM_ID CURVE_ID
        (ether 5) SLIPPAGE_BPS) = 0
   \<and> snd (claim_rewards_script
        ledger_no_rewards 0) = 0"
proof -
  let ?down = ledger_down
  let ?all = ledger_all_created
  let ?none = ledger_no_shares
  let ?dry = ledger_no_rewards
  let ?i7 = "\<lparr>personalUtilization = 1, eligibleRewards = 9, maxRewards = 10,
               lockedAmount = 7, lockEnd = 0, bondedBalance = 7\<rparr>"
  have "snd (create_atom_main ?down 0 ATOM_DATA (ether 10))
      = Raised (Exception ''Failed to connect to Intuition network'')"
    by (simp add: create_atom_main_def ledger_defs emit_def)
  then have "\<exists>e. snd (create_atom_main ?down 0 ATOM_DATA (ether 10)) = Raised e" ..
  with C10_exit_status [of ?down 0 ATOM_DATA "ether 10", THEN conjunct1]
  have a: "snd (create_atom_script ?down 0 ATOM_DATA (ether 10)) = 1"
    by (rule iffD2)
  have "is_connected ?all 0 \<and> from_key ?all = Inr alice
      \<and> get_balance ?all 0 alice = Inr (ether 1) \<and> balanceOf ?all 0 alice = Inr (ether 100)
      \<and> getAtomCost ?all 0 = Inr 100000000000000000
      \<and> ether 10 + 100000000000000000 \<le> ether 100
      \<and> calculateAtomId ?all 0 ATOM_DATA = Inr (''atom:'' @ ATOM_DATA)
      \<and> isTermCreated ?all 0 (''atom:'' @ ATOM_DATA) = Inr True"
    by (simp add: ledger_defs ether_def)
  from C10_exit_status [of ?all 0 ATOM_DATA "ether 10", THEN conjunct2, THEN conjunct2, THEN conjunct2, THEN conjunct2, THEN conjunct2, THEN conjunct2, THEN conjunct2, THEN conjunct2, THEN conjunct2, THEN conjunct2, THEN conjunct1, THEN mp, OF this]
  have b: "snd (create_atom_script ?all 0 ATOM_DATA (ether 10)) = 0" ..
  have "from_key ?all = Inr alice \<and> isTermCreated ?all 0 SUBJECT_ID = Inr True
      \<and> isTermCreated ?all 0 PREDICATE_ID = Inr True \<and> isTermCreated ?all 0 OBJECT_ID = Inr True
      \<and> calculateTripleId ?all 0 SUBJECT_ID PREDICATE_ID OBJECT_ID
          = Inr (''triple:'' @ SUBJECT_ID @ PREDICATE_ID @ OBJECT_ID)
      \<and> isTermCreated ?all 0 (''triple:'' @ SUBJECT_ID @ PREDICATE_ID @ OBJECT_ID) = Inr True"
    by (simp add: ledger_defs)
  from C10_exit_status [of ?all 0 _ "ether 20", THEN conjunct2, THEN conjunct2, THEN conjunct2, THEN conjunct2, THEN conjunct2, THEN conjunct2, THEN conjunct2, THEN conjunct2, THEN conjunct2, THEN conjunct2, THEN conjunct2, THEN conjunct1, THEN mp, OF this]
  have c: "snd (create_triple_script ?all 0 SUBJECT_ID PREDICATE_ID OBJECT_ID (ether 20)) = 0" ..
  have "from_key ?none = Inr alice \<and> getShares ?none 0 alice TERM_ID CURVE_ID = Inr 0"
    by (simp add: ledger_defs)
  from C10_exit_status [of ?none 0, THEN conjunct2, THEN conjunct2, THEN conjunct2, THEN conjunct2, THEN conjunct2, THEN conjunct2, THEN conjunct2, THEN conjunct2, THEN conjunct2, THEN conjunct2, THEN conjunct2, THEN conjunct2, THEN conjunct1, THEN mp, OF this]
  have d: "snd (redeem_shares_script ?none 0 TERM_ID CURVE_ID (ether 5) SLIPPAGE_BPS) = 0" ..
  have "from_key ?dry = Inr alice \<and> currentEpoch ?dry 0 = Inr 5 \<and> previousEpoch ?dry 0 = Inr 4
      \<and> getUserInfo ?dry 0 alice = Inr ?i7
      \<and> (bondedBalance ?i7 = 0 \<or> getUserCurrentClaimableRewards ?dry 0 alice = Inr 0)"
    by (simp add: ledger_defs)
  from C10_exit_status [of ?dry 0, THEN conjunct2, THEN conjunct2, THEN conjunct2, THEN conjunct2, THEN conjunct2, THEN conjunct2, THEN conjunct2, THEN conjunct2, THEN conjunct2, THEN conjunct2, THEN conjunct2, THEN conjunct2, THEN conjunct2, THEN mp, OF this]
  have e: "snd (claim_rewards_script ?dry 0) = 0" ..
  from a b c d e show ?thesis by blast
qed

section \<open>Event queries\<close>

lemma queries_every:
  "(\<forall>f \<in> set (queries (fst r)). P f) \<longleftrightarrow> every (\<lambda>a. \<forall>f. a = Read (rd_get_logs f) \<longrightarrow> P f) r"
proof -
  have "(\<forall>f \<in> set (queries as). P f)
      \<longleftrightarrow> list_all (\<lambda>a. \<forall>f. a = Read (rd_get_logs f) \<longrightarrow> P f) as" for as
    by (induction as rule: queries.induct) auto
  then show ?thesis by (simp add: every_def)
qed

lemma historical_queries:
  assumes "snd (query_historical_events w c from_block to_block) = Returned events"
  shows "queries (fst (query_historical_events w c from_block to_block))
     = map (kind_filter w from_block to_block)
         [ATOM_CREATED_TOPIC w, TRIPLE_CREATED_TOPIC w, DEPOSITED_TOPIC w, REDEEMED_TOPIC w]"
  using assms
  by (auto simp: query_historical_events_def read_def kind_filter_def Let_def emit_def
      split: sum.splits)

lemma user_queries:
  assumes "snd (query_user_events w c user_address from_block to_block) = Returned events"
  shows "queries (fst (query_user_events w c user_address from_block to_block))
     = map (\<lambda>topic. with_topic (user_topic user_address)
               (kind_filter w from_block to_block topic))
         [ATOM_CREATED_TOPIC w, DEPOSITED_TOPIC w, REDEEMED_TOPIC w]"
  using assms
  by (auto simp: query_user_events_def read_def kind_filter_def with_topic_def Let_def emit_def
      split: sum.splits)

lemma user_events_unfiltered:
  assumes "snd (query_user_events w c user_address from_block to_block) = Returned events"
  shows "\<exists>atom_logs deposit_logs redeem_logs.
     get_logs w c (with_topic (user_topic user_address)
        (kind_filter w from_block to_block (ATOM_CREATED_TOPIC w))) = Inr atom_logs
     \<and> get_logs w c (with_topic (user_topic user_address)
        (kind_filter w from_block to_block (DEPOSITED_TOPIC w))) = Inr deposit_logs
     \<and> get_logs w c (with_topic (user_topic user_address)
        (kind_filter w from_block to_block (REDEEMED_TOPIC w))) = Inr redeem_logs
     \<and> events = [(''atoms_created'', atom_logs), (''deposits'', deposit_logs),
                 (''redemptions'', redeem_logs)]"
  using assms
  by (auto simp: query_user_events_def read_def kind_filter_def with_topic_def Let_def emit_def
      split: sum.splits)

lemma user_queries_shape:
  "\<forall>f \<in> set (queries (fst (query_user_events w c user_address from_block to_block))).
     fromBlock f = from_block \<and> toBlock f = to_block
     \<and> address f = to_checksum_address w MULTIVAULT_ADDRESS
     \<and> (topics f = [ATOM_CREATED_TOPIC w, user_topic user_address]
        \<or> topics f = [DEPOSITED_TOPIC w, user_topic user_address]
        \<or> topics f = [REDEEMED_TOPIC w, user_topic user_address])"
  unfolding queries_every query_user_events_def
  by (simp add: Let_def)

lemma user_topic_padded:
  assumes len: "length user_address = 42"
    and sign: "user_address ! 2 \<noteq> CHR ''+''" "user_address ! 2 \<noteq> CHR ''-''"
  shows "user_topic user_address = ''0x'' @ replicate 24 (CHR ''0'') @ drop 2 user_address"
proof -
  from len have "drop 2 user_address \<noteq> []" by simp
  then obtain ch rest where d: "drop 2 user_address = ch # rest"
    by (cases "drop 2 user_address") auto
  from len have "hd (drop 2 user_address) = user_address ! 2"
    by (simp add: hd_drop_conv_nth)
  with d have ch: "ch = user_address ! 2" by simp
  have l: "length (drop 2 user_address) = 40" using len by simp
  have "length (ch # rest) = 40" using l d by simp
  then have r: "length rest = 39" by simp
  show ?thesis
    using sign ch r
    by (simp add: user_topic_def zfill_def d)
qed

text \<open>
  C8, as the spec states it: the user-filtered query is the historical query with the
  account's topic added to every filter. On the ledger that answers every query, the
  historical query asks four times, once per event kind, and the user-filtered query asks
  three times: it has no query for \<^verbatim>\<open>TripleCreated\<close>.
\<close>

theorem C8_user_query_skips_triples:
  "queries (fst (query_user_events ledger0 0 alice 12000 13000))
     \<noteq> map (with_topic (user_topic alice))
         (queries (fst (query_historical_events ledger0 0 12000 13000)))
   \<and> length (queries (fst (query_historical_events ledger0 0 12000 13000))) = 4
   \<and> length (queries (fst (query_user_events ledger0 0 alice 12000 13000))) = 3"
  by (simp add: query_user_events_def query_historical_events_def read_def with_topic_def
      ledger_defs Let_def DEPOSITED_TOPIC_def TRIPLE_CREATED_TOPIC_def)

text \<open>
  C8, amended: a historical query that returns has asked once per event kind, for the four
  kinds, each time for the MultiVault address over the given block range with the topic
  of the kind. A user-filtered query that returns has asked once for each of the three
  kinds \<^verbatim>\<open>AtomCreated\<close>, \<^verbatim>\<open>Deposited\<close> and \<^verbatim>\<open>Redeemed\<close> (not for \<^verbatim>\<open>TripleCreated\<close>), with
  the historical filter of the kind and the account's topic added as second topic, and
  returns what the ledger answered, unfiltered. Every filter it sends, returning or not,
  has this shape. For an address of 42 characters the topic is \<^verbatim>\<open>0x\<close>, 24 zeros and the
  40 characters after the prefix: 32 bytes.
\<close>

theorem C8_user_query:
  "(snd (query_historical_events w c from_block to_block) = Returned events \<longrightarrow>
      queries (fst (query_historical_events w c from_block to_block))
        = map (kind_filter w from_block to_block)
            [ATOM_CREATED_TOPIC w, TRIPLE_CREATED_TOPIC w, DEPOSITED_TOPIC w,
             REDEEMED_TOPIC w])
   \<and> (snd (query_user_events w c user_address from_block to_block) = Returned events' \<longrightarrow>
      queries (fst (query_user_events w c user_address from_block to_block))
        = map (\<lambda>topic. with_topic (user_topic user_address)
                  (kind_filter w from_block to_block topic))
            [ATOM_CREATED_TOPIC w, DEPOSITED_TOPIC w, REDEEMED_TOPIC w]
      \<and> (\<exists>atom_logs deposit_logs redeem_logs.
           get_logs w c (with_topic (user_topic user_address)
             (kind_filter w from_block to_block (ATOM_CREATED_TOPIC w))) = Inr atom_logs
           \<and> get_logs w c (with_topic (user_topic user_address)
             (kind_filter w from_block to_block (DEPOSITED_TOPIC w))) = Inr deposit_logs
           \<and> get_logs w c (with_topic (user_topic user_address)
             (kind_filter w from_block to_block (REDEEMED_TOPIC w))) = Inr redeem_logs
           \<and> events' = [(''atoms_created'', atom_logs), (''deposits'', deposit_logs),
                        (''redemptions'', redeem_logs)]))
   \<and> (\<forall>f \<in> set (queries (fst (query_user_events w c user_address from_block to_block))).
        fromBlock f = from_block \<and> toBlock f = to_block
        \<and> address f = to_checksum_address w MULTIVAULT_ADDRESS
        \<and> (topics f = [ATOM_CREATED_TOPIC w, user_topic user_address]
           \<or> topics f = [DEPOSITED_TOPIC w, user_topic user_address]
           \<or> topics f = [REDEEMED_TOPIC w, user_topic user_address]))
   \<and> (length user_address = 42 \<and> user_address ! 2 \<noteq> CHR ''+'' \<and> user_address ! 2 \<noteq> CHR ''-''
        \<longrightarrow> user_topic user_address
            = ''0x'' @ replicate 24 (CHR ''0'') @ drop 2 user_address)"
  using historical_queries [of w c from_block to_block events]
    user_queries [of w c user_address from_block to_block events']
    user_events_unfiltered [of w c user_address from_block to_block events']
    user_queries_shape [of w c user_address from_block to_block]
    user_topic_padded [of user_address]
  by blast

theorem C8_user_query_witness:
  "queries (fst (query_historical_events ledger0 0 12000 13000))
     = map (kind_filter ledger0 12000 13000)
         [ATOM_CREATED_TOPIC ledger0, TRIPLE_CREATED_TOPIC ledger0, DEPOSITED_TOPIC ledger0,
          REDEEMED_TOPIC ledger0]
   \<and> queries (fst (query_user_events ledger0 0 alice 12000 13000))
     = map (\<lambda>topic. with_topic (user_topic alice) (kind_filter ledger0 12000 13000 topic))
         [ATOM_CREATED_TOPIC ledger0, DEPOSITED_TOPIC ledger0, REDEEMED_TOPIC ledger0]
   \<and> user_topic alice
     = ''0x00000000000000000000000052908400098527886E0F7030069857D2E4169EE7''"
proof -
  have h: "snd (query_historical_events ledger0 0 12000 13000)
      = Returned [(''atoms_created'', []), (''triples_created'', []), (''deposits'', []),
                  (''redemptions'', [])]"
    by (simp add: query_historical_events_def read_def ledger_defs Let_def)
  have u: "snd (query_user_events ledger0 0 alice 12000 13000)
      = Returned [(''atoms_created'', []), (''deposits'', []), (''redemptions'', [])]"
    by (simp add: query_user_events_def read_def ledger_defs Let_def)
  have a: "length alice = 42 \<and> alice ! 2 \<noteq> CHR ''+'' \<and> alice ! 2 \<noteq> CHR ''-''"
    by code_simp
  have p: "''0x'' @ replicate 24 (CHR ''0'') @ drop 2 alice
      = ''0x00000000000000000000000052908400098527886E0F7030069857D2E4169EE7''"
    by code_simp
  from C8_user_query [of ledger0 0 12000 13000, THEN conjunct1, THEN mp, OF h]
  have hq: "queries (fst (query_historical_events ledger0 0 12000 13000))
     = map (kind_filter ledger0 12000 13000)
         [ATOM_CREATED_TOPIC ledger0, TRIPLE_CREATED_TOPIC ledger0, DEPOSITED_TOPIC ledger0,
          REDEEMED_TOPIC ledger0]" .
  from C8_user_query [of ledger0 0 12000 13000, THEN conjunct2, THEN conjunct1, THEN mp,
      OF u]
  have uq: "queries (fst (query_user_events ledger0 0 alice 12000 13000))
     = map (\<lambda>topic. with_topic (user_topic alice) (kind_filter ledger0 12000 13000 topic))
         [ATOM_CREATED_TOPIC ledger0, DEPOSITED_TOPIC ledger0, REDEEMED_TOPIC ledger0]" ..
  from C8_user_query [of ledger0 0 12000 13000, THEN conjunct2, THEN conjunct2,
      THEN conjunct2, THEN mp, OF a]
  have "user_topic alice = ''0x'' @ replicate 24 (CHR ''0'') @ drop 2 alice" .
  with p have "user_topic alice
     = ''0x00000000000000000000000052908400098527886E0F7030069857D2E4169EE7''"
    by simp
  with hq uq show ?thesis by blast
qed

end
